theory Spec2Isabelle
  imports Main
begin

section \<open>Storage module: content types\<close>

text \<open>
  The storage module resolves a MIME type from a file path:
  \<^verbatim>\<open>const ext = path.extname(filePath).toLowerCase();
  return contentTypes[ext] || 'application/octet-stream';\<close>
  Strings are modelled as lists of ASCII characters.

  \<open>path.extname\<close> is the function of the Node runtime (POSIX flavour), not of this
  repository. It is embedded as the runtime implements it: one scan of the path
  from its last character to its first, tracking the last dot of the last path
  segment. Node documents \<open>path.extname('.index') = ''\<close> and
  \<open>path.extname('index.coffee.md') = '.md'\<close>.
\<close>

record ext_scan =
  startDot :: int
  startPart :: int
  endIdx :: int
  matchedSlash :: bool
  preDotState :: int

definition ext_scan_init :: ext_scan where
  "ext_scan_init =
     \<lparr>startDot = -1, startPart = 0, endIdx = -1, matchedSlash = True, preDotState = 0\<rparr>"

text \<open>
  \<open>extname_scan p k st\<close> runs the loop \<open>for (i = k - 1; i >= 0; --i)\<close>. A slash met
  after the segment has started ends the loop (\<open>break\<close>); trailing slashes are
  skipped (\<open>continue\<close>).
\<close>

fun extname_scan :: "string \<Rightarrow> nat \<Rightarrow> ext_scan \<Rightarrow> ext_scan" where
  "extname_scan p 0 st = st"
| "extname_scan p (Suc i) st =
     (let code = p ! i in
      if code = CHR ''/'' then
        (if matchedSlash st then extname_scan p i st
         else st\<lparr>startPart := int i + 1\<rparr>)
      else
        (let st1 = (if endIdx st = -1
                    then st\<lparr>matchedSlash := False, endIdx := int i + 1\<rparr>
                    else st);
             st2 = (if code = CHR ''.'' then
                      (if startDot st1 = -1 then st1\<lparr>startDot := int i\<rparr>
                       else if preDotState st1 = 1 then st1
                       else st1\<lparr>preDotState := 1\<rparr>)
                    else if startDot st1 = -1 then st1
                    else st1\<lparr>preDotState := -1\<rparr>)
         in extname_scan p i st2))"

text \<open>The \<open>return\<close> statements after the loop.\<close>

definition extname_result :: "string \<Rightarrow> ext_scan \<Rightarrow> string" where
  "extname_result p st =
     (if startDot st = -1 \<or> endIdx st = -1 \<or> preDotState st = 0 \<or>
         (preDotState st = 1 \<and> startDot st = endIdx st - 1 \<and> startDot st = startPart st + 1)
      then ''''
      else take (nat (endIdx st - startDot st)) (drop (nat (startDot st)) p))"

definition extname :: "string \<Rightarrow> string" where
  "extname p = extname_result p (extname_scan p (length p) ext_scan_init)"

text \<open>\<open>String.prototype.toLowerCase\<close> on ASCII: the letters A to Z move to a to z.\<close>

definition lower_char :: "char \<Rightarrow> char" where
  "lower_char c =
     (case map_of
        [(CHR ''A'', CHR ''a''), (CHR ''B'', CHR ''b''), (CHR ''C'', CHR ''c''), (CHR ''D'', CHR ''d''),
         (CHR ''E'', CHR ''e''), (CHR ''F'', CHR ''f''), (CHR ''G'', CHR ''g''), (CHR ''H'', CHR ''h''),
         (CHR ''I'', CHR ''i''), (CHR ''J'', CHR ''j''), (CHR ''K'', CHR ''k''), (CHR ''L'', CHR ''l''),
         (CHR ''M'', CHR ''m''), (CHR ''N'', CHR ''n''), (CHR ''O'', CHR ''o''), (CHR ''P'', CHR ''p''),
         (CHR ''Q'', CHR ''q''), (CHR ''R'', CHR ''r''), (CHR ''S'', CHR ''s''), (CHR ''T'', CHR ''t''),
         (CHR ''U'', CHR ''u''), (CHR ''V'', CHR ''v''), (CHR ''W'', CHR ''w''), (CHR ''X'', CHR ''x''),
         (CHR ''Y'', CHR ''y''), (CHR ''Z'', CHR ''z'')]
        c of
        Some l \<Rightarrow> l
      | None \<Rightarrow> c)"

definition toLowerCase :: "string \<Rightarrow> string" where
  "toLowerCase s = map lower_char s"

text \<open>The object literal \<open>contentTypes\<close>, in the order of the source.\<close>

definition contentTypes :: "(string \<times> string) list" where
  "contentTypes =
     [(''.mp4'', ''video/mp4''),
      (''.avi'', ''video/x-msvideo''),
      (''.mov'', ''video/quicktime''),
      (''.wmv'', ''video/x-ms-wmv''),
      (''.flv'', ''video/x-flv''),
      (''.webm'', ''video/webm''),
      (''.mkv'', ''video/x-matroska''),
      (''.jpg'', ''image/jpeg''),
      (''.jpeg'', ''image/jpeg''),
      (''.png'', ''image/png''),
      (''.gif'', ''image/gif'')]"

text \<open>
  \<open>contentTypes[ext] || 'application/octet-stream'\<close>: every value of the table is a
  non-empty string, hence truthy, so the fallback is taken exactly when the key
  is absent.
\<close>

definition getContentType :: "string \<Rightarrow> string" where
  "getContentType filePath =
     (let ext = toLowerCase (extname filePath) in
      case map_of contentTypes ext of
        Some t \<Rightarrow> t
      | None \<Rightarrow> ''application/octet-stream'')"

section \<open>Storage module: deleting from every configured provider\<close>

text \<open>
  The module's functions return plain JavaScript objects whose sets of keys differ
  from branch to branch, so a result is a list of key/value pairs and a key that
  is absent reads as \<open>undefined\<close> (\<open>None\<close>).
\<close>

datatype js = JBool bool | JStr string | JList "js list" | JObj "(string \<times> js) list"

fun js_get :: "js \<Rightarrow> string \<Rightarrow> js option" where
  "js_get (JObj kvs) k = map_of kvs k"
| "js_get _ k = None"

text \<open>Truthiness of a property read, as \<open>result.success\<close> in \<open>results.some(...)\<close>.\<close>

fun js_truthy :: "js option \<Rightarrow> bool" where
  "js_truthy None = False"
| "js_truthy (Some (JBool b)) = b"
| "js_truthy (Some (JStr s)) = (s \<noteq> [])"
| "js_truthy (Some (JList xs)) = True"
| "js_truthy (Some (JObj kvs)) = True"

text \<open>An awaited call of a client library either rejects with a message or fulfils.\<close>

datatype 'a settled = Rejected string | Fulfilled 'a

text \<open>The three environment variables that decide which providers are configured.\<close>

record env =
  AWS_ACCESS_KEY_ID :: "string option"
  S3_BUCKET :: "string option"
  CLOUDINARY_CLOUD_NAME :: "string option"

text \<open>An environment variable is truthy when it is set and not the empty string.\<close>

fun truthy :: "'a list option \<Rightarrow> bool" where
  "truthy None = False"
| "truthy (Some s) = (s \<noteq> [])"

text \<open>
  The calls that reach a provider's client library. The libraries themselves are
  outside the repository: \<open>s3_deleteObject bucket key\<close> and
  \<open>cloudinary_destroy publicId\<close> stand for their answers.
\<close>

datatype sdk_call = S3DeleteObject "string option" string | CloudinaryDestroy string

type_synonym s3_client = "string option \<Rightarrow> string \<Rightarrow> unit settled"
type_synonym cloudinary_client = "string \<Rightarrow> string settled"

text \<open>
  \<open>deleteFromS3(s3Key, bucket = process.env.S3_BUCKET)\<close>: the default applies
  when the argument is \<open>undefined\<close>.
\<close>

definition deleteFromS3 :: "env \<Rightarrow> s3_client \<Rightarrow> string \<Rightarrow> string option \<Rightarrow> js \<times> sdk_call list" where
  "deleteFromS3 e s3_deleteObject s3Key bucketArg =
     (let bucket = (case bucketArg of None \<Rightarrow> S3_BUCKET e | Some b \<Rightarrow> Some b) in
      (case s3_deleteObject bucket s3Key of
         Fulfilled u \<Rightarrow> JObj [(''success'', JBool True)]
       | Rejected msg \<Rightarrow> JObj [(''success'', JBool False), (''error'', JStr msg)],
       [S3DeleteObject bucket s3Key]))"

definition deleteFromCloudinary :: "cloudinary_client \<Rightarrow> string \<Rightarrow> js \<times> sdk_call list" where
  "deleteFromCloudinary cloudinary_destroy publicId =
     (case cloudinary_destroy publicId of
        Fulfilled r \<Rightarrow> JObj [(''success'', JBool (r = ''ok'')), (''result'', JStr r)]
      | Rejected msg \<Rightarrow> JObj [(''success'', JBool False), (''error'', JStr msg)],
      [CloudinaryDestroy publicId])"

text \<open>
  \<open>deleteFile(key, options)\<close>: two independent \<open>if\<close> statements push onto
  \<open>results\<close>; the returned object has the keys \<open>success\<close> and \<open>results\<close> only.
\<close>

definition deleteFile ::
  "env \<Rightarrow> s3_client \<Rightarrow> cloudinary_client \<Rightarrow> string \<Rightarrow> string option \<Rightarrow> js \<times> sdk_call list" where
  "deleteFile e s3_deleteObject cloudinary_destroy key bucketOpt =
     (let (results1, calls1) =
            (if truthy (AWS_ACCESS_KEY_ID e) \<and> truthy (S3_BUCKET e)
             then (case deleteFromS3 e s3_deleteObject key bucketOpt of (r, c) \<Rightarrow> ([r], c))
             else ([], []));
          (results2, calls2) =
            (if truthy (CLOUDINARY_CLOUD_NAME e)
             then (case deleteFromCloudinary cloudinary_destroy key of
                     (r, c) \<Rightarrow> (results1 @ [r], calls1 @ c))
             else (results1, calls1))
      in (JObj [(''success'', JBool (list_ex (\<lambda>result. js_truthy (js_get result ''success'')) results2)),
                (''results'', JList results2)],
          calls2))"

text \<open>
  \<open>uploadFile\<close> picks one provider; \<open>viaS3\<close> and \<open>viaCloudinary\<close> stand for what
  \<open>uploadToS3\<close> and \<open>uploadToCloudinary\<close> return. Its last branch is the one place
  where the module reports that no provider is configured.
\<close>

definition uploadFile :: "env \<Rightarrow> js \<Rightarrow> js \<Rightarrow> js" where
  "uploadFile e viaS3 viaCloudinary =
     (if truthy (AWS_ACCESS_KEY_ID e) \<and> truthy (S3_BUCKET e) then viaS3
      else if truthy (CLOUDINARY_CLOUD_NAME e) then viaCloudinary
      else JObj [(''success'', JBool False), (''error'', JStr ''No storage provider configured'')])"

text \<open>
  The specification's reading of \<open>deleteFile\<close>: the providers configured, in the
  order they are tried, and one attempt per provider.
\<close>

datatype provider = S3 | Cloudinary

definition configured :: "env \<Rightarrow> provider list" where
  "configured e =
     (if truthy (AWS_ACCESS_KEY_ID e) \<and> truthy (S3_BUCKET e) then [S3] else []) @
     (if truthy (CLOUDINARY_CLOUD_NAME e) then [Cloudinary] else [])"

fun attempt ::
  "env \<Rightarrow> s3_client \<Rightarrow> cloudinary_client \<Rightarrow> string \<Rightarrow> string option \<Rightarrow> provider \<Rightarrow> js \<times> sdk_call list" where
  "attempt e s3c clc key bucketOpt S3 = deleteFromS3 e s3c key bucketOpt"
| "attempt e s3c clc key bucketOpt Cloudinary = deleteFromCloudinary clc key"

text \<open>The one request an attempt sends to the provider's client library.\<close>

fun call_of :: "env \<Rightarrow> string \<Rightarrow> string option \<Rightarrow> provider \<Rightarrow> sdk_call" where
  "call_of e key bucketOpt S3 =
     S3DeleteObject (case bucketOpt of None \<Rightarrow> S3_BUCKET e | Some b \<Rightarrow> Some b) key"
| "call_of e key bucketOpt Cloudinary = CloudinaryDestroy key"

text \<open>A provider's delete succeeded when the object it returned has \<open>success: true\<close>.\<close>

definition succeeded :: "js \<Rightarrow> bool" where
  "succeeded r = (js_get r ''success'' = Some (JBool True))"

section \<open>API server: records, engine answers and system state\<close>

text \<open>
  The video schema. \<open>status\<close> is the schema's enumeration; \<open>jobId\<close>, \<open>thumbnail\<close>,
  \<open>duration\<close> and \<open>videoInfo\<close> have no default and are unset until assigned. Numbers
  are only copied, never computed with, and are modelled as integers; dates are
  clock readings in milliseconds. \<open>version\<close> is the version key \<open>__v\<close> that the
  persistence library keeps on every document: 0 at the insert, moved on by one
  by every save that assigns an array.

  The texts a client sends (\<open>title\<close>, \<open>description\<close>) are JavaScript strings,
  sequences of UTF-16 code units, each a number from 0 to 65535; identifiers, paths
  and console lines stay lists of characters.
\<close>

datatype status = Uploading | Processing | Ready | Error

type_synonym jstring = "int list"

record format =
  quality :: string
  url :: string
  fsize :: int
  bitrate :: int

record video_info =
  width :: int
  height :: int
  codec :: string
  fps :: int

record video =
  vid :: string
  title :: jstring
  description :: jstring
  originalFilename :: string
  status :: status
  jobId :: "string option"
  thumbnail :: "string option"
  duration :: "int option"
  formats :: "format list"
  videoInfo :: "video_info option"
  createdAt :: nat
  updatedAt :: nat
  version :: nat

text \<open>
  What the processor answers to \<open>GET /job/:id\<close>: \<open>jobData.status\<close> and the optional
  \<open>jobData.data\<close> with the four members the server destructures. An answer is
  taken to have this shape: \<open>data\<close>, when present, holds the list
  \<open>encoded_files\<close> and the three other members.
\<close>

record encoded_file =
  file_quality :: string
  file_url :: string
  file_size :: int
  file_bitrate :: int

record job_payload =
  encoded_files :: "encoded_file list"
  thumbnail_url :: string
  job_duration :: int
  video_info :: video_info

record job_data =
  job_status :: string
  job_payload :: "job_payload option"

text \<open>
  An awaited HTTP call settles at some clock reading, with a rejection (transport
  failure, timeout, non-2xx answer) or with the response body. The processor is
  outside the repository: \<open>engine jobId\<close> stands for what \<open>axios.get\<close> yields for
  that job.
\<close>

type_synonym 'a awaited = "nat \<times> 'a settled"
type_synonym engine = "string \<Rightarrow> job_data awaited"

datatype engine_call = Submit string | JobStatus string

text \<open>
  The state the handlers act on: the \<open>videos\<close> collection in insertion order, the
  paths present on the local disk, the console, and the requests sent to the
  processor so far. The database is taken to answer; a stored record is taken
  to satisfy the schema (its required \<open>title\<close> is not empty), so that a save is
  refused only for the reasons modelled below.
\<close>

record sys =
  db :: "video list"
  files :: "string set"
  logs :: "string list"
  calls :: "engine_call list"

datatype body =
    ErrorMsg string
  | Uploaded string jstring jstring status "string option" string
  | StatusOf string status "string option" nat
  | Doc video

type_synonym response = "nat \<times> body"

text \<open>\<open>Video.findOne({ id })\<close>.\<close>

definition findOne :: "video list \<Rightarrow> string \<Rightarrow> video option" where
  "findOne videos k = find (\<lambda>d. vid d = k) videos"

definition console :: "sys \<Rightarrow> string \<Rightarrow> sys" where
  "console s line = s\<lparr>logs := logs s @ [line]\<rparr>"

definition request :: "sys \<Rightarrow> engine_call \<Rightarrow> sys" where
  "request s c = s\<lparr>calls := calls s @ [c]\<rparr>"

section \<open>API server: saving a loaded document\<close>

text \<open>
  \<open>video.save()\<close> on a document that was loaded from the collection does not
  write the document held in memory over the stored one. The persistence
  library keeps, for the document in memory, the paths that were assigned a
  value different from the one the document had (an assignment of an equal
  value marks nothing), and \<open>save\<close> sends an update of those paths only, to the
  document found by its key. \<open>base\<close> is the document as loaded (or as last
  saved), \<open>doc\<close> the document in memory, \<open>stored\<close> the document in the collection
  when the update arrives.

  An array path is different. The elements of \<open>formats\<close> are subdocuments, which
  get a fresh \<open>_id\<close> when they are assigned, so an assigned array equals the
  loaded one only when both are empty; \<open>arr\<close> says that \<open>formats\<close> was assigned
  and marked. An update that sets an array also moves the version key on by
  one, and it is filtered on the version key the document was loaded with: when
  the stored version has moved, no document matches and \<open>save\<close> throws a
  \<open>VersionError\<close>. An update without an array carries no such filter; it is
  refused only when the document is no longer stored.
\<close>

definition written :: "video \<Rightarrow> video \<Rightarrow> bool \<Rightarrow> video \<Rightarrow> video" where
  "written base doc arr stored =
     stored\<lparr>title := (if title doc = title base then title stored else title doc),
            description :=
              (if description doc = description base then description stored else description doc),
            originalFilename :=
              (if originalFilename doc = originalFilename base then originalFilename stored
               else originalFilename doc),
            status := (if status doc = status base then status stored else status doc),
            jobId := (if jobId doc = jobId base then jobId stored else jobId doc),
            thumbnail := (if thumbnail doc = thumbnail base then thumbnail stored else thumbnail doc),
            duration := (if duration doc = duration base then duration stored else duration doc),
            formats := (if arr then formats doc else formats stored),
            videoInfo := (if videoInfo doc = videoInfo base then videoInfo stored else videoInfo doc),
            createdAt := (if createdAt doc = createdAt base then createdAt stored else createdAt doc),
            updatedAt := (if updatedAt doc = updatedAt base then updatedAt stored else updatedAt doc),
            version := (if arr then version stored + 1 else version stored)\<rparr>"

definition updateOne :: "sys \<Rightarrow> string \<Rightarrow> (video \<Rightarrow> video) \<Rightarrow> sys" where
  "updateOne s k f = s\<lparr>db := map (\<lambda>d. if vid d = k then f d else d) (db s)\<rparr>"

definition save :: "sys \<Rightarrow> video \<Rightarrow> video \<Rightarrow> bool \<Rightarrow> sys settled" where
  "save s base doc arr =
     (case findOne (db s) (vid doc) of
        None \<Rightarrow> Rejected (if arr then ''VersionError'' else ''DocumentNotFoundError'')
      | Some stored \<Rightarrow>
          if arr \<and> version stored \<noteq> version base then Rejected ''VersionError''
          else Fulfilled (updateOne s (vid doc) (written base doc arr)))"

section \<open>API server: reconciliation\<close>

text \<open>
  The block that both the status route and the background job run on the
  processor's answer:
  \<^verbatim>\<open>if (jobData.status === 'completed' && jobData.data) { ...; video.updatedAt = new Date(); await video.save(); }
  else if (jobData.status === 'error') { video.status = 'error'; video.updatedAt = new Date(); await video.save(); }\<close>
  \<open>reconcile now video jobData\<close> is the document in memory when \<open>save\<close> is
  called, with the mark of \<open>formats\<close>, or \<open>None\<close> when neither branch is taken;
  \<open>now\<close> is what \<open>new Date()\<close> reads. The completed branch assigns \<open>formats\<close>, which
  is marked unless the loaded array and the assigned one are both empty; the
  error branch does not assign it.
\<close>

definition to_format :: "encoded_file \<Rightarrow> format" where
  "to_format f =
     \<lparr>quality = file_quality f, url = file_url f, fsize = file_size f, bitrate = file_bitrate f\<rparr>"

definition reconcile :: "nat \<Rightarrow> video \<Rightarrow> job_data \<Rightarrow> (video \<times> bool) option" where
  "reconcile now video jobData =
     (if job_status jobData = ''completed'' \<and> job_payload jobData \<noteq> None then
        (case job_payload jobData of
           Some d \<Rightarrow>
             Some (video\<lparr>status := Ready,
                         thumbnail := Some (thumbnail_url d),
                         duration := Some (job_duration d),
                         videoInfo := Some (video_info d),
                         formats := map to_format (encoded_files d),
                         updatedAt := now\<rparr>,
                   \<not> (formats video = [] \<and> encoded_files d = []))
         | None \<Rightarrow> None)
      else if job_status jobData = ''error'' then
        Some (video\<lparr>status := Error, updatedAt := now\<rparr>, False)
      else None)"

text \<open>
  The document in memory once the block has run and its save has gone through:
  a save that set \<open>formats\<close> has moved the version key on by one.
\<close>

definition reconciled :: "nat \<Rightarrow> video \<Rightarrow> job_data \<Rightarrow> video" where
  "reconciled now video jobData =
     (case reconcile now video jobData of
        Some (video', arr) \<Rightarrow> video'\<lparr>version := (if arr then version video + 1 else version video)\<rparr>
      | None \<Rightarrow> video)"

section \<open>API server: the status route\<close>

definition status_body :: "video \<Rightarrow> response" where
  "status_body video = (200, StatusOf (vid video) (status video) (jobId video) (updatedAt video))"

text \<open>
  What the status route does once \<open>await axios.get(...)\<close> has settled, on the
  document it loaded before the call. Other handlers run while the call is
  pending, so the state it resumes in need not be the state it loaded from. A
  \<open>save\<close> that throws is caught by the same \<open>catch (jobError)\<close> as a rejected
  query; the answer is then built from the document in memory, on which the
  fields were already assigned.
\<close>

definition status_resume :: "sys \<Rightarrow> video \<Rightarrow> job_data awaited \<Rightarrow> sys \<times> response" where
  "status_resume s video answer =
     (case snd answer of
        Rejected msg \<Rightarrow> (console s (''Error checking job status: '' @ msg), status_body video)
      | Fulfilled jobData \<Rightarrow>
          (case reconcile (fst answer) video jobData of
             Some (video', arr) \<Rightarrow>
               (case save s video video' arr of
                  Fulfilled s' \<Rightarrow> (s', status_body video')
                | Rejected msg \<Rightarrow>
                    (console s (''Error checking job status: '' @ msg), status_body video'))
           | None \<Rightarrow> (s, status_body video)))"

text \<open>\<open>GET /api/videos/:id/status\<close>, run with nothing in between its read and its write.\<close>

definition get_status :: "sys \<Rightarrow> string \<Rightarrow> engine \<Rightarrow> sys \<times> response" where
  "get_status s k engine =
     (case findOne (db s) k of
        None \<Rightarrow> (s, (404, ErrorMsg ''Video not found''))
      | Some video \<Rightarrow>
          (if status video = Processing \<and> truthy (jobId video)
           then status_resume (request s (JobStatus (the (jobId video)))) video
                  (engine (the (jobId video)))
           else (s, status_body video)))"

section \<open>API server: the background job\<close>

text \<open>
  One iteration of \<open>for (const video of processingVideos)\<close>, on the document
  \<open>video\<close> that \<open>find\<close> loaded before the loop: the guard on \<open>video.jobId\<close>, the
  query inside its own \<open>try\<close>, the reconcile block, and the console line of the
  branch taken (\<open>processing completed\<close> after the completed branch,
  \<open>processing failed\<close> after the error branch). A \<open>save\<close> that throws is caught
  and logged like a rejected query.
\<close>

definition check_job :: "engine \<Rightarrow> video \<Rightarrow> sys \<Rightarrow> sys" where
  "check_job engine video s =
     (if truthy (jobId video) then
        (case snd (engine (the (jobId video))) of
           Rejected msg \<Rightarrow>
             console (request s (JobStatus (the (jobId video))))
               (''Error checking job '' @ the (jobId video) @ '': '' @ msg)
         | Fulfilled jobData \<Rightarrow>
             (case reconcile (fst (engine (the (jobId video)))) video jobData of
                Some (video', arr) \<Rightarrow>
                  (case save (request s (JobStatus (the (jobId video)))) video video' arr of
                     Fulfilled s' \<Rightarrow>
                       console s'
                         (if status video' = Ready
                          then ''Video '' @ vid video @ '' processing completed''
                          else ''Video '' @ vid video @ '' processing failed'')
                   | Rejected msg \<Rightarrow>
                       console (request s (JobStatus (the (jobId video))))
                         (''Error checking job '' @ the (jobId video) @ '': '' @ msg))
              | None \<Rightarrow> request s (JobStatus (the (jobId video)))))
      else s)"

fun sweep :: "engine \<Rightarrow> video list \<Rightarrow> sys \<Rightarrow> sys" where
  "sweep engine [] s = s"
| "sweep engine (video # rest) s = sweep engine rest (check_job engine video s)"

text \<open>\<open>Video.find({ status: 'processing' })\<close> is read once, before the loop.\<close>

definition checkProcessingJobs :: "engine \<Rightarrow> sys \<Rightarrow> sys" where
  "checkProcessingJobs engine s =
     sweep engine (filter (\<lambda>d. status d = Processing) (db s)) s"

text \<open>
  What one iteration of the background job leaves stored for the record it
  visits: the record as loaded when it has no \<open>jobId\<close> or its query is
  rejected, the reconciled record otherwise. Only the answer to the record's own
  query enters.
\<close>

definition outcome :: "engine \<Rightarrow> video \<Rightarrow> video" where
  "outcome engine video =
     (if truthy (jobId video) then
        (case snd (engine (the (jobId video))) of
           Rejected msg \<Rightarrow> video
         | Fulfilled jobData \<Rightarrow> reconciled (fst (engine (the (jobId video)))) video jobData)
      else video)"

section \<open>API server: upload and dispatch\<close>

text \<open>
  \<open>String.prototype.trim\<close> removes, at both ends, the code units that the
  language counts as white space or as line terminators: tab, line feed,
  vertical tab, form feed, carriage return, space, no-break space (U+00A0),
  U+1680, U+2000 to U+200A, U+2028, U+2029, U+202F, U+205F, U+3000 and the
  byte-order mark U+FEFF. All of them are single code units.
\<close>

definition is_space :: "int \<Rightarrow> bool" where
  "is_space c =
     (c \<in> set [0x09, 0x0A, 0x0B, 0x0C, 0x0D, 0x20, 0xA0, 0x1680, 0x2028, 0x2029, 0x202F, 0x205F,
               0x3000, 0xFEFF] \<or>
      (0x2000 \<le> c \<and> c \<le> 0x200A))"

definition trim :: "jstring \<Rightarrow> jstring" where
  "trim s = rev (dropWhile is_space (rev (dropWhile is_space s)))"

text \<open>\<open>req.file\<close> as multer leaves it, and the two body fields the route reads.\<close>

record upload_file =
  originalname :: string
  path :: string

record upload_req =
  req_file :: "upload_file option"
  body_title :: "jstring option"
  body_description :: "jstring option"

text \<open>\<open>fs.existsSync\<close> and \<open>fs.unlinkSync\<close> on the set of paths present.\<close>

definition unlink :: "sys \<Rightarrow> string \<Rightarrow> sys" where
  "unlink s p = s\<lparr>files := files s - {p}\<rparr>"

text \<open>
  \<open>new Video({ id, title, description, originalFilename, status: 'uploading' })\<close>;
  both dates default to \<open>Date.now\<close>, read when the document is constructed, and
  the insert stores version key 0.
\<close>

definition new_video :: "string \<Rightarrow> jstring \<Rightarrow> jstring \<Rightarrow> string \<Rightarrow> nat \<Rightarrow> video" where
  "new_video videoId t d fname now =
     \<lparr>vid = videoId, title = t, description = d, originalFilename = fname,
      status = Uploading, jobId = None, thumbnail = None, duration = None,
      formats = [], videoInfo = None, createdAt = now, updatedAt = now, version = 0\<rparr>"

text \<open>
  The first \<open>video.save()\<close> inserts. The schema declares \<open>id\<close> unique, so an
  insert whose \<open>id\<close> is already stored is refused.
\<close>

definition insert_video :: "sys \<Rightarrow> video \<Rightarrow> sys option" where
  "insert_video s video =
     (if findOne (db s) (vid video) = None then Some (s\<lparr>db := db s @ [video]\<rparr>) else None)"

text \<open>
  Lines 170 to 172 build the multipart body:
  \<^verbatim>\<open>const formData = new FormData(); const fileStream = fs.createReadStream(req.file.path);
  formData.append('video', fileStream, req.file.originalname);\<close>
  \<open>server.js\<close> requires no \<open>form-data\<close> package, so \<open>FormData\<close> is the global of the
  runtime. Its \<open>append\<close>, called with a file name as third argument, takes a
  \<open>Blob\<close> as second argument and throws a \<open>TypeError\<close> on anything else; a read
  stream is not a \<open>Blob\<close>. (On a runtime without the global, \<open>new FormData()\<close>
  throws a \<open>ReferenceError\<close> one line earlier.) The statements stand outside the
  inner \<open>try\<close>, so what they throw goes to the outer \<open>catch\<close>.
\<close>

definition formData_append :: "upload_file \<Rightarrow> unit settled" where
  "formData_append f =
     Rejected ''Failed to execute append on FormData: parameter 2 is not of type Blob''"

text \<open>The handler of the outer \<open>catch (error)\<close>.\<close>

definition upload_failed :: "sys \<Rightarrow> upload_file \<Rightarrow> string \<Rightarrow> sys \<times> response" where
  "upload_failed s f msg =
     (let s1 = console s (''Error uploading video: '' @ msg)
      in (if path f \<in> files s1 then unlink s1 (path f) else s1,
          (500, ErrorMsg ''Failed to upload video'')))"

text \<open>
  The handler of \<open>catch (processingError)\<close>, on the document as the \<open>try\<close> block
  left it; \<open>base\<close> is the document as last saved. A \<open>save\<close> that throws here
  goes to the outer \<open>catch\<close>.
\<close>

definition processing_failed ::
  "sys \<Rightarrow> video \<Rightarrow> video \<Rightarrow> upload_file \<Rightarrow> string \<Rightarrow> sys \<times> response" where
  "processing_failed s base video f msg =
     (let s1 = console s (''Error sending video to processor: '' @ msg)
      in case save s1 base (video\<lparr>status := Error\<rparr>) False of
           Rejected m \<Rightarrow> upload_failed s1 f m
         | Fulfilled s2 \<Rightarrow>
             (if path f \<in> files s2 then unlink s2 (path f) else s2,
              (500, ErrorMsg ''Failed to start video processing'')))"

text \<open>
  The inner \<open>try\<close> block: \<open>axios.post(.../process)\<close>, whose answer carries
  \<open>data.job_id\<close>, then the assignment of \<open>jobId\<close> and \<open>status\<close>, the save and
  \<open>fs.unlinkSync(req.file.path)\<close>, which throws when the file is not there. The clock
  reading at which the submission settles is part of \<open>submission\<close>; the block
  never reads the clock.
\<close>

definition dispatch ::
  "sys \<Rightarrow> video \<Rightarrow> upload_file \<Rightarrow> string option awaited \<Rightarrow> sys \<times> response" where
  "dispatch s video f submission =
     (case snd submission of
        Rejected msg \<Rightarrow> processing_failed (request s (Submit (originalname f))) video video f msg
      | Fulfilled job_id \<Rightarrow>
          (let video1 = video\<lparr>jobId := job_id, status := Processing\<rparr>;
               s0 = request s (Submit (originalname f))
           in case save s0 video video1 False of
                Rejected m \<Rightarrow> processing_failed s0 video video1 f m
              | Fulfilled s1 \<Rightarrow>
                  if path f \<in> files s1
                  then (unlink s1 (path f),
                        (200, Uploaded (vid video1) (title video1) (description video1)
                                (status video1) (jobId video1)
                                ''Video uploaded successfully and is being processed''))
                  else processing_failed s1 video1 video1 f
                         (''ENOENT: no such file or directory, unlink '' @ path f)))"

text \<open>
  \<open>POST /api/videos/upload\<close>. \<open>videoId\<close> is what \<open>uuidv4()\<close> returns, \<open>now\<close> the
  clock reading when the document is constructed, and \<open>submission\<close> what the
  processor would answer to \<open>axios.post\<close>. Two statements between the
  validation and the inner \<open>try\<close> can throw into the outer \<open>catch\<close>: the first
  \<open>save\<close>, when the insert is refused, and the construction of the multipart
  body. After the second the record stays stored as \<open>uploading\<close>.
\<close>

definition post_upload ::
  "sys \<Rightarrow> upload_req \<Rightarrow> string \<Rightarrow> nat \<Rightarrow> string option awaited \<Rightarrow> sys \<times> response" where
  "post_upload s req videoId now submission =
     (case req_file req of
        None \<Rightarrow> (s, (400, ErrorMsg ''No video file provided''))
      | Some f \<Rightarrow>
          (if truthy (body_title req) \<and> trim (the (body_title req)) \<noteq> [] then
             (let video = new_video videoId (trim (the (body_title req)))
                            (case body_description req of None \<Rightarrow> [] | Some d \<Rightarrow> trim d)
                            (originalname f) now
              in case insert_video s video of
                   Some s1 \<Rightarrow>
                     (case formData_append f of
                        Fulfilled u \<Rightarrow> dispatch s1 video f submission
                      | Rejected msg \<Rightarrow> upload_failed s1 f msg)
                 | None \<Rightarrow> upload_failed s f ''E11000 duplicate key error'')
           else (s, (400, ErrorMsg ''Title is required''))))"

section \<open>API server: metadata update\<close>

text \<open>
  \<open>PUT /api/videos/:id\<close>. The schema requires \<open>title\<close>, and a required string
  must not be empty: a title that trims to nothing makes \<open>save\<close> throw, and the
  route answers 500 without writing, as it does when \<open>save\<close> finds the record
  gone.
\<close>

definition put_video ::
  "sys \<Rightarrow> string \<Rightarrow> jstring option \<Rightarrow> jstring option \<Rightarrow> nat \<Rightarrow> sys \<times> response" where
  "put_video s k new_title new_description now =
     (case findOne (db s) k of
        None \<Rightarrow> (s, (404, ErrorMsg ''Video not found''))
      | Some video \<Rightarrow>
          (let video1 = (if truthy new_title then video\<lparr>title := trim (the new_title)\<rparr> else video);
               video2 = (case new_description of
                           None \<Rightarrow> video1
                         | Some d \<Rightarrow> video1\<lparr>description := trim d\<rparr>);
               video3 = video2\<lparr>updatedAt := now\<rparr>
           in if title video3 = []
              then (console s ''Error updating video: validation failed'',
                    (500, ErrorMsg ''Failed to update video''))
              else (case save s video video3 False of
                      Fulfilled s' \<Rightarrow> (s', (200, Doc video3))
                    | Rejected msg \<Rightarrow>
                        (console s (''Error updating video: '' @ msg),
                         (500, ErrorMsg ''Failed to update video'')))))"

section \<open>The record life cycle\<close>



definition terminal :: "status \<Rightarrow> bool" where
  "terminal a = (a = Ready \<or> a = Error)"

section \<open>Sample data\<close>

text \<open>
  A record waiting for its encode (its title is \<open>Clip\<close>), answers of the
  processor, and a state that holds the record; the instances below are stated
  on them.
\<close>

abbreviation (input) clip :: video where
  "clip \<equiv>
     \<lparr>vid = ''v1'', title = [67, 108, 105, 112], description = [],
      originalFilename = ''clip.mp4'',
      status = Processing, jobId = Some ''job-42'', thumbnail = None, duration = None,
      formats = [], videoInfo = None, createdAt = 100, updatedAt = 100, version = 0\<rparr>"

abbreviation (input) completed :: job_data where
  "completed \<equiv>
     \<lparr>job_status = ''completed'',
      job_payload = Some
        \<lparr>encoded_files =
           [\<lparr>file_quality = ''480p'', file_url = ''/out/v1_480p.mp4'', file_size = 1000,
             file_bitrate = 800\<rparr>,
            \<lparr>file_quality = ''720p'', file_url = ''/out/v1_720p.mp4'', file_size = 2000,
             file_bitrate = 1600\<rparr>],
         thumbnail_url = ''/out/v1.jpg'', job_duration = 12,
         video_info = \<lparr>width = 1280, height = 720, codec = ''h264'', fps = 30\<rparr>\<rparr>\<rparr>"

text \<open>A completed answer whose list of encoded files is empty.\<close>

abbreviation (input) completed_no_files :: job_data where
  "completed_no_files \<equiv>
     \<lparr>job_status = ''completed'',
      job_payload = Some
        \<lparr>encoded_files = [], thumbnail_url = ''/out/v1.jpg'', job_duration = 12,
         video_info = \<lparr>width = 1280, height = 720, codec = ''h264'', fps = 30\<rparr>\<rparr>\<rparr>"

abbreviation (input) failed :: job_data where
  "failed \<equiv> \<lparr>job_status = ''error'', job_payload = None\<rparr>"

abbreviation (input) one_clip :: sys where
  "one_clip \<equiv> \<lparr>db = [clip], files = {}, logs = [], calls = []\<rparr>"

abbreviation (input) stuck :: video where
  "stuck \<equiv>
     \<lparr>vid = ''v0'', title = [83, 116, 117, 99, 107], description = [],
      originalFilename = ''stuck.mp4'',
      status = Processing, jobId = Some ''job-41'', thumbnail = None, duration = None,
      formats = [], videoInfo = None, createdAt = 90, updatedAt = 90, version = 0\<rparr>"

abbreviation (input) two_clips :: sys where
  "two_clips \<equiv> \<lparr>db = [stuck, clip], files = {}, logs = [], calls = []\<rparr>"

text \<open>A processor that times out on \<open>job-41\<close> and reports every other job completed.\<close>

abbreviation (input) flaky :: engine where
  "flaky \<equiv> (\<lambda>j. if j = ''job-41'' then (10, Rejected ''timeout'') else (20, Fulfilled completed))"

text \<open>
  An upload of \<open>clip.mp4\<close> whose title is \<open>Clip\<close> with a space before it and a
  no-break space after it.
\<close>

abbreviation (input) upload_clip :: upload_req where
  "upload_clip \<equiv>
     \<lparr>req_file = Some \<lparr>originalname = ''clip.mp4'', path = ''uploads/video-1.mp4''\<rparr>,
      body_title = Some [32, 67, 108, 105, 112, 160], body_description = None\<rparr>"

abbreviation (input) fresh :: sys where
  "fresh \<equiv> \<lparr>db = [], files = {''uploads/video-1.mp4''}, logs = [], calls = []\<rparr>"

abbreviation (input) both_providers :: env where
  "both_providers \<equiv>
     \<lparr>AWS_ACCESS_KEY_ID = Some ''AKIA'', S3_BUCKET = Some ''videos'',
      CLOUDINARY_CLOUD_NAME = Some ''demo''\<rparr>"

abbreviation (input) no_provider :: env where
  "no_provider \<equiv> \<lparr>AWS_ACCESS_KEY_ID = None, S3_BUCKET = None, CLOUDINARY_CLOUD_NAME = None\<rparr>"

abbreviation (input) s3_down :: s3_client where
  "s3_down \<equiv> (\<lambda>bucket key. Rejected ''AccessDenied'')"

abbreviation (input) cloudinary_up :: cloudinary_client where
  "cloudinary_up \<equiv> (\<lambda>publicId. Fulfilled ''ok'')"

section \<open>Basic facts about the collection and the state\<close>

lemma findOne_vid: "findOne xs k = Some v \<Longrightarrow> vid v = k"
  by (induction xs) (auto simp: findOne_def split: if_splits)

lemma findOne_mem: "findOne xs k = Some v \<Longrightarrow> v \<in> set xs"
  by (induction xs) (auto simp: findOne_def split: if_splits)

lemma findOne_distinct:
  "distinct (map vid xs) \<Longrightarrow> v \<in> set xs \<Longrightarrow> findOne xs (vid v) = Some v"
  by (induction xs) (auto simp: findOne_def)


lemma findOne_None: "findOne xs k = None \<longleftrightarrow> k \<notin> vid ` set xs"
  by (induction xs) (auto simp: findOne_def)

lemma written_vid [simp]: "vid (written base doc arr stored) = vid stored"
  by (simp add: written_def)

lemma written_status:
  "status (written base doc arr stored) =
     (if status doc = status base then status stored else status doc)"
  by (simp add: written_def)

lemma written_updatedAt:
  "updatedAt (written base doc arr stored) =
     (if updatedAt doc = updatedAt base then updatedAt stored else updatedAt doc)"
  by (simp add: written_def)

lemma written_version:
  "version (written base doc arr stored) = (if arr then version stored + 1 else version stored)"
  by (simp add: written_def)

lemma written_formats:
  "formats (written base doc arr stored) = (if arr then formats doc else formats stored)"
  by (simp add: written_def)

lemma findOne_updateOne:
  assumes "\<And>d. vid (f d) = vid d"
  shows "findOne (db (updateOne s q f)) k =
           (if k = q then map_option f (findOne (db s) k) else findOne (db s) k)"
proof -
  have "find (\<lambda>d. vid d = k) (map (\<lambda>d. if vid d = q then f d else d) xs) =
        (if k = q then map_option f (find (\<lambda>d. vid d = k) xs)
         else find (\<lambda>d. vid d = k) xs)" for xs
    by (induction xs) (auto simp: assms)
  then show ?thesis by (simp add: findOne_def updateOne_def)
qed

lemma ids_updateOne:
  assumes "\<And>d. vid (f d) = vid d"
  shows "map vid (db (updateOne s q f)) = map vid (db s)"
  by (simp add: updateOne_def comp_def assms)

lemma updateOne_fields [simp]:
  "files (updateOne s q f) = files s" "logs (updateOne s q f) = logs s"
  "calls (updateOne s q f) = calls s"
  by (simp_all add: updateOne_def)

lemma console_fields [simp]:
  "db (console s l) = db s" "files (console s l) = files s"
  "logs (console s l) = logs s @ [l]" "calls (console s l) = calls s"
  by (simp_all add: console_def)

lemma request_fields [simp]:
  "db (request s c) = db s" "files (request s c) = files s"
  "logs (request s c) = logs s" "calls (request s c) = calls s @ [c]"
  by (simp_all add: request_def)

lemma unlink_fields [simp]:
  "db (unlink s p) = db s" "files (unlink s p) = files s - {p}"
  "logs (unlink s p) = logs s" "calls (unlink s p) = calls s"
  by (simp_all add: unlink_def)

text \<open>What a save that goes through leaves, and when a save goes through.\<close>

lemma save_Fulfilled:
  assumes "save s base doc arr = Fulfilled s'"
  shows "findOne (db s') k =
           (if k = vid doc then map_option (written base doc arr) (findOne (db s) k)
            else findOne (db s) k)"
    and "map vid (db s') = map vid (db s)"
    and "files s' = files s" and "logs s' = logs s" and "calls s' = calls s"
  using assms
  by (auto simp: save_def findOne_updateOne ids_updateOne split: option.splits if_splits)

lemma save_Rejected_iff:
  "(\<exists>msg. save s base doc arr = Rejected msg) \<longleftrightarrow>
     (case findOne (db s) (vid doc) of
        None \<Rightarrow> True
      | Some stored \<Rightarrow> arr \<and> version stored \<noteq> version base)"
  by (auto simp: save_def split: option.splits)


lemma save_versioned:
  "findOne (db s) (vid doc) = Some stored \<Longrightarrow>
   save s base doc True =
     (if version stored = version base
      then Fulfilled (updateOne s (vid doc) (written base doc True))
      else Rejected ''VersionError'')"
  by (simp add: save_def)

lemma save_request:
  "save (request s c) base doc arr =
     (case save s base doc arr of
        Rejected m \<Rightarrow> Rejected m
      | Fulfilled s' \<Rightarrow> Fulfilled (request s' c))"
  by (simp add: save_def request_def updateOne_def split: option.splits)

lemma save_console:
  "save (console s l) base doc arr =
     (case save s base doc arr of
        Rejected m \<Rightarrow> Rejected m
      | Fulfilled s' \<Rightarrow> Fulfilled (console s' l))"
  by (simp add: save_def console_def updateOne_def split: option.splits)

lemma reconcile_facts:
  assumes "reconcile t v jd = Some (v', arr)"
  shows "vid v' = vid v" and "version v' = version v"
    and "status v' = Ready \<or> status v' = Error" and "updatedAt v' = t"
    and "\<not> arr \<Longrightarrow> formats v' = formats v"
  using assms by (auto simp: reconcile_def split: if_splits option.splits)

text \<open>
  On the record the document was loaded from, the update leaves the document
  in memory, with the version key moved when \<open>formats\<close> was set.
\<close>

lemma written_loaded:
  assumes "reconcile t v jd = Some (v', arr)"
  shows "written v v' arr v = v'\<lparr>version := (if arr then version v + 1 else version v)\<rparr>"
  using assms
  by (auto simp: reconcile_def written_def split: if_splits option.splits)




section \<open>Facts about the status route and the metadata route\<close>

text \<open>What \<open>status_resume\<close> leaves stored, whatever is stored when it resumes.\<close>

lemma status_resume_other:
  "k \<noteq> vid video \<Longrightarrow>
   findOne (db (fst (status_resume s video answer))) k = findOne (db s) k"
  by (auto simp: status_resume_def save_Fulfilled(1) dest: reconcile_facts(1)
      split: settled.splits option.splits prod.splits)

lemma status_resume_stored:
  assumes "findOne (db s) (vid video) = Some stored"
    and "reconcile t video jobData = Some (video', arr)"
  shows "findOne (db (fst (status_resume s video (t, Fulfilled jobData)))) (vid video) =
           Some (if arr \<and> version stored \<noteq> version video then stored
                 else written video video' arr stored)"
proof -
  have v: "vid video' = vid video" using assms(2) by (rule reconcile_facts(1))
  show ?thesis
  proof (cases "save s video video' arr")
    case (Rejected msg)
    then have "arr \<and> version stored \<noteq> version video"
      using assms(1) v by (auto simp: save_def split: if_splits)
    then show ?thesis using Rejected assms by (simp add: status_resume_def)
  next
    case (Fulfilled s')
    then have "\<not> (arr \<and> version stored \<noteq> version video)"
      using assms(1) v by (auto simp: save_def split: if_splits)
    then show ?thesis
      using Fulfilled assms v save_Fulfilled(1)[OF Fulfilled, of "vid video"]
      by (auto simp: status_resume_def)
  qed
qed

lemma status_resume_db_refused:
  assumes "findOne (db s) (vid video) = Some stored"
    and "reconcile t video jobData = Some (video', True)"
    and "version stored \<noteq> version video"
  shows "fst (status_resume s video (t, Fulfilled jobData)) =
           console s ''Error checking job status: VersionError''"
  using assms reconcile_facts(1)[OF assms(2)] by (simp add: status_resume_def save_def)


text \<open>The background job's iteration leaves in the collection what \<open>status_resume\<close> leaves.\<close>

lemma check_job_db:
  "truthy (jobId video) \<Longrightarrow>
   db (check_job engine video s) =
     db (fst (status_resume s video (engine (the (jobId video)))))"
  by (auto simp: check_job_def status_resume_def save_request
      split: settled.splits option.splits prod.splits)



lemma get_status_settled:
  assumes "findOne (db s) k = Some v" and "status v \<noteq> Processing"
  shows "db (fst (get_status s k engine)) = db s"
  using assms by (simp add: get_status_def)


section \<open>Facts about the background job\<close>

lemma check_job_other:
  "k \<noteq> vid video \<Longrightarrow> findOne (db (check_job engine video s)) k = findOne (db s) k"
proof (cases "truthy (jobId video)")
  case True
  assume "k \<noteq> vid video"
  then show ?thesis using True by (simp add: check_job_db status_resume_other)
next
  case False
  then show ?thesis by (simp add: check_job_def)
qed

lemma check_job_self:
  assumes "findOne (db s) (vid video) = Some video"
  shows "findOne (db (check_job engine video s)) (vid video) = Some (outcome engine video)"
proof (cases "truthy (jobId video)")
  case False
  then show ?thesis using assms by (simp add: check_job_def outcome_def)
next
  case True
  show ?thesis
  proof (cases "snd (engine (the (jobId video)))")
    case (Rejected msg)
    then show ?thesis using assms True by (simp add: check_job_def outcome_def)
  next
    case (Fulfilled jobData)
    let ?t = "fst (engine (the (jobId video)))"
    have a: "engine (the (jobId video)) = (?t, Fulfilled jobData)"
      using Fulfilled by (cases "engine (the (jobId video))") simp
    show ?thesis
    proof (cases "reconcile ?t video jobData")
      case None
      then show ?thesis
        using assms True Fulfilled by (simp add: check_job_def outcome_def reconciled_def)
    next
      case (Some p)
      obtain video' arr where p: "p = (video', arr)" by (cases p)
      have "findOne (db (fst (status_resume s video (?t, Fulfilled jobData)))) (vid video)
              = Some (if arr \<and> version video \<noteq> version video then video
                      else written video video' arr video)"
        using assms Some p by (intro status_resume_stored) simp_all
      then show ?thesis
        using True Fulfilled Some p a written_loaded[of ?t video jobData video' arr]
        by (simp add: check_job_db outcome_def reconciled_def)
    qed
  qed
qed

lemma sweep_other:
  "k \<notin> vid ` set vs \<Longrightarrow> findOne (db (sweep engine vs s)) k = findOne (db s) k"
  by (induction vs arbitrary: s) (auto simp: check_job_other)

lemma sweep_self:
  "distinct (map vid vs) \<Longrightarrow> video \<in> set vs \<Longrightarrow> findOne (db s) (vid video) = Some video \<Longrightarrow>
   findOne (db (sweep engine vs s)) (vid video) = Some (outcome engine video)"
proof (induction vs arbitrary: s)
  case Nil
  then show ?case by simp
next
  case (Cons x rest)
  show ?case
  proof (cases "x = video")
    case True
    with Cons.prems have "vid video \<notin> vid ` set rest" by auto
    then show ?thesis
      using True Cons.prems(3) by (simp add: sweep_other check_job_self)
  next
    case False
    with Cons.prems have mem: "video \<in> set rest" by auto
    then have "vid video \<in> vid ` set rest" by (rule imageI)
    with Cons.prems(1) have ne: "vid video \<noteq> vid x" by auto
    have "findOne (db (check_job engine x s)) (vid video) = Some video"
      using ne Cons.prems(3) by (simp add: check_job_other)
    with Cons.IH[of "check_job engine x s"] Cons.prems(1) mem show ?thesis by simp
  qed
qed


lemma distinct_processing:
  "distinct (map vid xs) \<Longrightarrow> distinct (map vid (filter (\<lambda>d. status d = Processing) xs))"
  by (simp add: distinct_map_filter)

lemma checkProcessingJobs_record:
  assumes "distinct (map vid (db s))" and "findOne (db s) k = Some v"
  shows "findOne (db (checkProcessingJobs engine s)) k =
           Some (if status v = Processing then outcome engine v else v)"
proof (cases "status v = Processing")
  case True
  have mem: "v \<in> set (filter (\<lambda>d. status d = Processing) (db s))"
    using True findOne_mem[OF assms(2)] by simp
  have k: "vid v = k" using assms(2) by (rule findOne_vid)
  show ?thesis
    using sweep_self[OF distinct_processing[OF assms(1)] mem, of s engine] assms(2) True k
    by (simp add: checkProcessingJobs_def)
next
  case False
  have "k \<notin> vid ` set (filter (\<lambda>d. status d = Processing) (db s))"
  proof
    assume "k \<in> vid ` set (filter (\<lambda>d. status d = Processing) (db s))"
    then obtain w where w: "w \<in> set (db s)" "status w = Processing" "vid w = k" by auto
    from findOne_distinct[OF assms(1) w(1)] w(3) assms(2) have "w = v" by simp
    with w(2) False show False by simp
  qed
  then show ?thesis using assms(2) False by (simp add: checkProcessingJobs_def sweep_other)
qed

lemma check_job_calls:
  "calls (check_job engine video s) =
     calls s @ (if truthy (jobId video) then [JobStatus (the (jobId video))] else [])"
  by (auto simp: check_job_def save_request save_Fulfilled(5)
      split: settled.splits option.splits prod.splits)

lemma sweep_calls:
  "calls (sweep engine vs s) =
     calls s @ map (\<lambda>d. JobStatus (the (jobId d))) (filter (\<lambda>d. truthy (jobId d)) vs)"
  by (induction vs arbitrary: s) (auto simp: check_job_calls)

lemma check_job_logs: "set (logs s) \<subseteq> set (logs (check_job engine video s))"
  by (auto simp: check_job_def save_request save_Fulfilled(4)
      split: settled.splits option.splits prod.splits)

lemma sweep_logs: "set (logs s) \<subseteq> set (logs (sweep engine vs s))"
proof (induction vs arbitrary: s)
  case Nil
  then show ?case by simp
next
  case (Cons x rest)
  have "set (logs s) \<subseteq> set (logs (check_job engine x s))" by (rule check_job_logs)
  also have "\<dots> \<subseteq> set (logs (sweep engine rest (check_job engine x s)))" by (rule Cons.IH)
  finally show ?case by simp
qed

lemma check_job_rejected:
  "truthy (jobId w) \<Longrightarrow> snd (engine (the (jobId w))) = Rejected msg \<Longrightarrow>
   (''Error checking job '' @ the (jobId w) @ '': '' @ msg) \<in> set (logs (check_job engine w s))"
  by (simp add: check_job_def)

lemma sweep_rejected:
  "w \<in> set vs \<Longrightarrow> truthy (jobId w) \<Longrightarrow> snd (engine (the (jobId w))) = Rejected msg \<Longrightarrow>
   (''Error checking job '' @ the (jobId w) @ '': '' @ msg) \<in> set (logs (sweep engine vs s))"
proof (induction vs arbitrary: s)
  case Nil
  then show ?case by simp
next
  case (Cons x rest)
  show ?case
  proof (cases "x = w")
    case True
    then show ?thesis
      using check_job_rejected[of w engine msg s] Cons.prems(2,3)
        sweep_logs[of "check_job engine w s" engine rest]
      by auto
  next
    case False
    with Cons.prems Cons.IH show ?thesis by simp
  qed
qed

section \<open>Facts about upload\<close>

lemma upload_failed_db: "db (fst (upload_failed s f msg)) = db s"
  by (simp add: upload_failed_def Let_def)

lemma upload_failed_files: "path f \<notin> files (fst (upload_failed s f msg))"
  by (simp add: upload_failed_def Let_def)

lemma upload_failed_calls: "calls (fst (upload_failed s f msg)) = calls s"
  by (simp add: upload_failed_def Let_def)

text \<open>
  The inner \<open>try\<close> block and its \<open>catch\<close> assign \<open>jobId\<close> and \<open>status\<close> only: whatever
  the submission does, they leave the \<open>updatedAt\<close> of every stored record as it
  is.
\<close>

lemma save_keeps_updatedAt:
  assumes "save s base doc arr = Fulfilled s'" and "updatedAt doc = updatedAt base"
  shows "map updatedAt (db s') = map updatedAt (db s)"
  using assms
  by (auto simp: save_def updateOne_def written_updatedAt split: option.splits if_splits)

lemma processing_failed_keeps_updatedAt:
  assumes "updatedAt video = updatedAt base"
  shows "map updatedAt (db (fst (processing_failed s base video f msg))) = map updatedAt (db s)"
proof (cases "save (console s (''Error sending video to processor: '' @ msg)) base
                (video\<lparr>status := Error\<rparr>) False")
  case (Rejected m)
  then show ?thesis by (simp add: processing_failed_def Let_def upload_failed_db)
next
  case (Fulfilled s2)
  have "map updatedAt (db s2) =
          map updatedAt (db (console s (''Error sending video to processor: '' @ msg)))"
    using save_keeps_updatedAt[OF Fulfilled] assms by simp
  then show ?thesis using Fulfilled by (simp add: processing_failed_def Let_def)
qed

lemma dispatch_keeps_updatedAt:
  "map updatedAt (db (fst (dispatch s video f submission))) = map updatedAt (db s)"
proof (cases "snd submission")
  case (Rejected msg)
  then show ?thesis by (simp add: dispatch_def processing_failed_keeps_updatedAt)
next
  case (Fulfilled job_id)
  let ?video1 = "video\<lparr>jobId := job_id, status := Processing\<rparr>"
  let ?s0 = "request s (Submit (originalname f))"
  show ?thesis
  proof (cases "save ?s0 video ?video1 False")
    case (Rejected m)
    then show ?thesis
      using Fulfilled by (simp add: dispatch_def Let_def processing_failed_keeps_updatedAt)
  next
    case saved: (Fulfilled s1)
    have "map updatedAt (db s1) = map updatedAt (db ?s0)"
      using save_keeps_updatedAt[OF saved] by simp
    then show ?thesis
      using Fulfilled saved
      by (simp add: dispatch_def Let_def processing_failed_keeps_updatedAt)
  qed
qed

text \<open>
  The multipart body is never built, so a well-formed upload under a new id ends
  in the outer \<open>catch\<close>: the record is stored as constructed, the file is
  deleted, nothing is sent to the processor and the answer is 500.
\<close>

lemma post_upload_stops:
  assumes "req_file req = Some f" and "truthy (body_title req)"
    and "trim (the (body_title req)) \<noteq> []"
    and "findOne (db s) videoId = None"
  shows "db (fst (post_upload s req videoId now submission)) =
           db s @ [new_video videoId (trim (the (body_title req)))
                     (case body_description req of None \<Rightarrow> [] | Some d \<Rightarrow> trim d)
                     (originalname f) now]"
    and "path f \<notin> files (fst (post_upload s req videoId now submission))"
    and "calls (fst (post_upload s req videoId now submission)) = calls s"
    and "snd (post_upload s req videoId now submission) = (500, ErrorMsg ''Failed to upload video'')"
  using assms
  by (simp_all add: post_upload_def insert_video_def formData_append_def upload_failed_def
      Let_def new_video_def)

lemma post_upload_calls: "calls (fst (post_upload s req videoId now submission)) = calls s"
  by (simp add: post_upload_def insert_video_def formData_append_def upload_failed_calls
      Let_def new_video_def split: option.splits)



section \<open>Facts about \<open>path.extname\<close>\<close>

text \<open>
  The scan on a path \<open>stem.x\<close> whose extension \<open>x\<close> holds no dot and no slash and
  whose stem ends in an ordinary character: it passes over \<open>x\<close>, records the
  dot, and whatever the rest of the stem holds, the result is \<open>.x\<close>.
\<close>

lemma scan_before_dot:
  "k < m \<Longrightarrow> m < length p \<Longrightarrow> startDot st = int m \<Longrightarrow> endIdx st = int (length p) \<Longrightarrow>
   \<not> matchedSlash st \<Longrightarrow> startPart st = 0 \<Longrightarrow>
   preDotState st = -1 \<or> (preDotState st = 1 \<and> k + 1 < m) \<Longrightarrow>
   extname_result p (extname_scan p k st) = drop m p"
proof (induction k arbitrary: st)
  case 0
  then show ?case by (auto simp: extname_result_def)
next
  case (Suc i)
  show ?case
  proof (cases "p ! i = CHR ''/''")
    case True
    with Suc.prems show ?thesis by (auto simp: extname_result_def)
  next
    case False
    show ?thesis
    proof (cases "p ! i = CHR ''.''")
      case True
      let ?st = "if preDotState st = 1 then st else st\<lparr>preDotState := 1\<rparr>"
      have "extname_scan p (Suc i) st = extname_scan p i ?st"
        using Suc.prems True by (simp add: Let_def)
      moreover have "extname_result p (extname_scan p i ?st) = drop m p"
        using Suc.prems by (intro Suc.IH) auto
      ultimately show ?thesis by simp
    next
      case dot: False
      have "extname_scan p (Suc i) st = extname_scan p i (st\<lparr>preDotState := -1\<rparr>)"
        using Suc.prems False dot by (simp add: Let_def)
      moreover have "extname_result p (extname_scan p i (st\<lparr>preDotState := -1\<rparr>)) = drop m p"
        using Suc.prems by (intro Suc.IH) auto
      ultimately show ?thesis by simp
    qed
  qed
qed

lemma scan_step_other:
  assumes "p ! i \<noteq> CHR ''/''" and "p ! i \<noteq> CHR ''.''"
  shows "extname_scan p (Suc i) st =
         extname_scan p i
           ((if endIdx st = -1 then st\<lparr>matchedSlash := False, endIdx := int i + 1\<rparr> else st)
              \<lparr>preDotState := (if startDot st = -1 then preDotState st else -1)\<rparr>)"
  using assms by (auto simp: Let_def)

lemma scan_step_first_dot:
  assumes "p ! i = CHR ''.''" and "startDot st = -1"
  shows "extname_scan p (Suc i) st =
         extname_scan p i
           ((if endIdx st = -1 then st\<lparr>matchedSlash := False, endIdx := int i + 1\<rparr> else st)
              \<lparr>startDot := int i\<rparr>)"
  using assms by (auto simp: Let_def)

lemma scan_at_dot:
  assumes "stem \<noteq> []" and "last stem \<noteq> CHR ''/''" and "last stem \<noteq> CHR ''.''"
    and "p = stem @ CHR ''.'' # x"
    and "startDot st = -1" and "preDotState st = 0" and "startPart st = 0"
    and "(endIdx st = -1 \<and> x = []) \<or> (endIdx st = int (length p) \<and> \<not> matchedSlash st)"
  shows "extname_result p (extname_scan p (Suc (length stem)) st) = CHR ''.'' # x"
proof -
  let ?m = "length stem"
  obtain m' where m': "?m = Suc m'" using assms(1) by (cases stem) auto
  have dot: "p ! ?m = CHR ''.''" using assms(4) by simp
  have lst: "p ! m' = last stem"
    using assms(1,4) m' by (simp add: nth_append last_conv_nth)
  have len: "length p = Suc ?m + length x" using assms(4) by simp
  let ?st1 = "(if endIdx st = -1 then st\<lparr>matchedSlash := False, endIdx := int ?m + 1\<rparr> else st)
                \<lparr>startDot := int ?m\<rparr>"
  let ?st2 = "(if endIdx ?st1 = -1 then ?st1\<lparr>matchedSlash := False, endIdx := int m' + 1\<rparr>
              else ?st1)\<lparr>preDotState := (if startDot ?st1 = -1 then preDotState ?st1 else -1)\<rparr>"
  have step1: "extname_scan p (Suc ?m) st = extname_scan p ?m ?st1"
    using dot assms(5) by (rule scan_step_first_dot)
  have step2: "extname_scan p (Suc m') ?st1 = extname_scan p m' ?st2"
    using assms(2,3) lst by (intro scan_step_other) simp_all
  have "extname_result p (extname_scan p m' ?st2) = drop ?m p"
    using m' len assms(7,8) by (intro scan_before_dot) auto
  with step1 step2 m' show ?thesis using assms(4) by simp
qed

lemma scan_extension:
  assumes "stem \<noteq> []" and "last stem \<noteq> CHR ''/''" and "last stem \<noteq> CHR ''.''"
    and "p = stem @ CHR ''.'' # x"
    and "CHR ''/'' \<notin> set x" and "CHR ''.'' \<notin> set x"
    and "j \<le> length x"
    and "startDot st = -1" and "preDotState st = 0" and "startPart st = 0"
    and "(endIdx st = -1 \<and> j = length x) \<or> (endIdx st = int (length p) \<and> \<not> matchedSlash st)"
  shows "extname_result p (extname_scan p (Suc (length stem) + j) st) = CHR ''.'' # x"
  using assms(7-11)
proof (induction j arbitrary: st)
  case 0
  show ?case
    using scan_at_dot[OF assms(1-4), of st] 0 by auto
next
  case (Suc j)
  let ?i = "Suc (length stem) + j"
  have c: "p ! ?i = x ! j" using assms(4) by (simp add: nth_append)
  have mem: "x ! j \<in> set x" using Suc.prems by simp
  have ns: "p ! ?i \<noteq> CHR ''/''" and nd: "p ! ?i \<noteq> CHR ''.''"
    using mem assms(5,6) c by auto
  have len: "length p = Suc (length stem) + length x" using assms(4) by simp
  let ?st1 = "(if endIdx st = -1 then st\<lparr>matchedSlash := False, endIdx := int ?i + 1\<rparr> else st)
              \<lparr>preDotState := (if startDot st = -1 then preDotState st else -1)\<rparr>"
  have step: "extname_scan p (Suc ?i) st = extname_scan p ?i ?st1"
    using ns nd by (rule scan_step_other)
  have "extname_result p (extname_scan p ?i ?st1) = CHR ''.'' # x"
    using Suc.prems len by (intro Suc.IH) auto
  with step show ?case by simp
qed

lemma extname_simple:
  assumes "stem \<noteq> []" and "last stem \<noteq> CHR ''/''" and "last stem \<noteq> CHR ''.''"
    and "CHR ''/'' \<notin> set x" and "CHR ''.'' \<notin> set x"
  shows "extname (stem @ CHR ''.'' # x) = CHR ''.'' # x"
  using scan_extension[OF assms(1-3) refl assms(4,5), of "length x" ext_scan_init]
  by (simp add: extname_def ext_scan_init_def)

section \<open>Unique ids\<close>

text \<open>
  The schema declares \<open>id\<close> unique. No handler changes the \<open>id\<close> of a stored
  record, and an upload adds a record only under an \<open>id\<close> that is not stored yet,
  so a collection with unique ids keeps them unique.
\<close>

lemma ids_status_resume:
  "map vid (db (fst (status_resume s video answer))) = map vid (db s)"
  by (auto simp: status_resume_def save_Fulfilled(2)
      split: settled.splits option.splits prod.splits)

lemma ids_check_job: "map vid (db (check_job engine video s)) = map vid (db s)"
proof (cases "truthy (jobId video)")
  case True
  then show ?thesis by (simp add: check_job_db ids_status_resume)
next
  case False
  then show ?thesis by (simp add: check_job_def)
qed

lemma ids_sweep: "map vid (db (sweep engine vs s)) = map vid (db s)"
  by (induction vs arbitrary: s) (auto simp: ids_check_job)

lemma ids_get_status: "map vid (db (fst (get_status s k engine))) = map vid (db s)"
  by (auto simp: get_status_def ids_status_resume split: option.splits)

lemma ids_put_video: "map vid (db (fst (put_video s k t d now))) = map vid (db s)"
  by (auto simp: put_video_def Let_def save_Fulfilled(2) split: option.splits settled.splits)

lemma unique_ids_preserved:
  assumes "distinct (map vid (db s))"
  shows "distinct (map vid (db (fst (get_status s k engine))))"
    and "distinct (map vid (db (checkProcessingJobs engine s)))"
    and "distinct (map vid (db (fst (put_video s k t d now))))"
    and "distinct (map vid (db (fst (post_upload s req videoId now submission))))"
proof -
  show "distinct (map vid (db (fst (get_status s k engine))))"
    using assms by (simp add: ids_get_status)
  show "distinct (map vid (db (checkProcessingJobs engine s)))"
    using assms by (simp add: checkProcessingJobs_def ids_sweep)
  show "distinct (map vid (db (fst (put_video s k t d now))))"
    using assms by (simp add: ids_put_video)
  show "distinct (map vid (db (fst (post_upload s req videoId now submission))))"
    using assms
    by (auto simp: post_upload_def Let_def insert_video_def formData_append_def findOne_None
        new_video_def upload_failed_db split: option.splits)
qed

section \<open>Facts about the providers' outcomes\<close>

lemma attempt_succeeded:
  "succeeded (fst (attempt e s3c clc key b S3)) =
     (s3c (case b of None \<Rightarrow> S3_BUCKET e | Some x \<Rightarrow> Some x) key = Fulfilled ())"
  "succeeded (fst (attempt e s3c clc key b Cloudinary)) = (clc key = Fulfilled ''ok'')"
  by (auto simp: succeeded_def deleteFromS3_def deleteFromCloudinary_def Let_def
      split: settled.splits)

lemma deleteFile_attempts:
  "deleteFile e s3c clc key b =
     (JObj [(''success'',
             JBool (list_ex (\<lambda>p. succeeded (fst (attempt e s3c clc key b p))) (configured e))),
            (''results'', JList (map (\<lambda>p. fst (attempt e s3c clc key b p)) (configured e)))],
      map (call_of e key b) (configured e))"
  by (simp add: deleteFile_def configured_def deleteFromS3_def deleteFromCloudinary_def
      succeeded_def Let_def split: settled.splits)

section \<open>Facts about the content-type table\<close>

lemma lower_dot: "toLowerCase (CHR ''.'' # x) = CHR ''.'' # toLowerCase x"
  by (simp add: toLowerCase_def lower_char_def)

lemma table_entries:
  "map (map_of contentTypes)
     [''.mp4'', ''.avi'', ''.mov'', ''.wmv'', ''.flv'', ''.webm'', ''.mkv'', ''.jpg'', ''.jpeg'',
      ''.png'', ''.gif''] =
   [Some ''video/mp4'', Some ''video/x-msvideo'', Some ''video/quicktime'', Some ''video/x-ms-wmv'',
    Some ''video/x-flv'', Some ''video/webm'', Some ''video/x-matroska'', Some ''image/jpeg'',
    Some ''image/jpeg'', Some ''image/png'', Some ''image/gif'']"
  by code_simp

lemma sample_types:
  "getContentType ''clip.MP4'' = ''video/mp4''"
  "getContentType ''.MP4'' = ''application/octet-stream''"
  "getContentType ''.xyz'' = ''application/octet-stream''"
  by code_simp+

lemma sample_extension: "map_of contentTypes (toLowerCase (extname ''notes.txt'')) = None"
  by code_simp

section \<open>Claims about the status route\<close>

text \<open>
  C1. The claim: for a record in status \<open>processing\<close> and a \<open>completed\<close> payload,
  running the reconcile block a second time on the same payload leaves a record
  identical in every field, \<open>updatedAt\<close> included, to the record after one run.
  The block runs twice on one record when two handlers load the record before
  either has saved; a handler that loads the record after the first save finds
  it \<open>ready\<close> and does not run the block. The second run assigns
  \<open>updatedAt = new Date()\<close> again and calls \<open>save\<close> on its older copy. What holds,
  for two runs on copies of the same stored record: when the block marks
  \<open>formats\<close> (the payload lists an encoded file, or the record already had
  formats), the first save has moved the version key, the second save is
  refused and the collection stays as the first run left it; when the payload
  lists no encoded file and the record has no formats, the second save goes
  through and the stored record differs from the first run's in \<open>updatedAt\<close>
  only, which takes the second clock reading; when the payload carries no
  \<open>data\<close>, neither run writes. The background job's iteration leaves in the
  collection what the status route's does.
\<close>

theorem reconcile_twice:
  assumes "findOne (db s) (vid video) = Some video"
    and "status video = Processing"
    and "job_status jobData = ''completed''"
  shows "findOne (db (fst (status_resume s video (t1, Fulfilled jobData)))) (vid video) =
           Some (reconciled t1 video jobData) \<and>
         (job_payload jobData = Some d \<and> \<not> (formats video = [] \<and> encoded_files d = []) \<longrightarrow>
            db (fst (status_resume (fst (status_resume s video (t1, Fulfilled jobData))) video
                       (t2, Fulfilled jobData))) =
            db (fst (status_resume s video (t1, Fulfilled jobData)))) \<and>
         (job_payload jobData = Some d \<and> formats video = [] \<and> encoded_files d = [] \<longrightarrow>
            findOne (db (fst (status_resume (fst (status_resume s video (t1, Fulfilled jobData)))
                                video (t2, Fulfilled jobData)))) (vid video) =
            Some ((reconciled t1 video jobData)
                    \<lparr>updatedAt := (if t2 = updatedAt video then t1 else t2)\<rparr>)) \<and>
         (job_payload jobData = None \<longrightarrow>
            fst (status_resume (fst (status_resume s video (t1, Fulfilled jobData))) video
                   (t2, Fulfilled jobData)) = s) \<and>
         (job_payload jobData = Some d \<longrightarrow>
            db (fst (get_status (fst (status_resume s video (t1, Fulfilled jobData))) (vid video)
                       engine)) =
            db (fst (status_resume s video (t1, Fulfilled jobData)))) \<and>
         (truthy (jobId video) \<longrightarrow>
            db (check_job (\<lambda>j. (t1, Fulfilled jobData)) video s) =
            db (fst (status_resume s video (t1, Fulfilled jobData))))"
proof -
  let ?s1 = "fst (status_resume s video (t1, Fulfilled jobData))"
  have once: "findOne (db ?s1) (vid video) = Some (reconciled t1 video jobData)"
  proof (cases "reconcile t1 video jobData")
    case None
    then show ?thesis using assms(1) by (simp add: status_resume_def reconciled_def)
  next
    case (Some p)
    obtain video' arr where p: "p = (video', arr)" by (cases p)
    have "findOne (db ?s1) (vid video) =
            Some (if arr \<and> version video \<noteq> version video then video
                  else written video video' arr video)"
      using assms(1) Some p by (intro status_resume_stored) simp_all
    then show ?thesis
      using Some p written_loaded[of t1 video jobData video' arr] by (simp add: reconciled_def)
  qed
  have marked: "db (fst (status_resume ?s1 video (t2, Fulfilled jobData))) = db ?s1"
    if d: "job_payload jobData = Some d \<and> \<not> (formats video = [] \<and> encoded_files d = [])"
  proof -
    have r1: "reconcile t1 video jobData =
                Some (video\<lparr>status := Ready, thumbnail := Some (thumbnail_url d),
                            duration := Some (job_duration d), videoInfo := Some (video_info d),
                            formats := map to_format (encoded_files d), updatedAt := t1\<rparr>, True)"
      using assms(3) d by (simp add: reconcile_def)
    have r2: "reconcile t2 video jobData =
                Some (video\<lparr>status := Ready, thumbnail := Some (thumbnail_url d),
                            duration := Some (job_duration d), videoInfo := Some (video_info d),
                            formats := map to_format (encoded_files d), updatedAt := t2\<rparr>, True)"
      using assms(3) d by (simp add: reconcile_def)
    have v: "version (reconciled t1 video jobData) \<noteq> version video"
      using r1 by (simp add: reconciled_def)
    have "fst (status_resume ?s1 video (t2, Fulfilled jobData)) =
            console ?s1 ''Error checking job status: VersionError''"
      using once r2 v by (rule status_resume_db_refused)
    then show ?thesis by simp
  qed
  have unmarked:
    "findOne (db (fst (status_resume ?s1 video (t2, Fulfilled jobData)))) (vid video) =
       Some ((reconciled t1 video jobData)\<lparr>updatedAt := (if t2 = updatedAt video then t1 else t2)\<rparr>)"
    if d: "job_payload jobData = Some d \<and> formats video = [] \<and> encoded_files d = []"
  proof -
    have r1: "reconcile t1 video jobData =
                Some (video\<lparr>status := Ready, thumbnail := Some (thumbnail_url d),
                            duration := Some (job_duration d), videoInfo := Some (video_info d),
                            formats := map to_format (encoded_files d), updatedAt := t1\<rparr>, False)"
      using assms(3) d by (simp add: reconcile_def)
    have r2: "reconcile t2 video jobData =
                Some (video\<lparr>status := Ready, thumbnail := Some (thumbnail_url d),
                            duration := Some (job_duration d), videoInfo := Some (video_info d),
                            formats := map to_format (encoded_files d), updatedAt := t2\<rparr>, False)"
      using assms(3) d by (simp add: reconcile_def)
    have "findOne (db (fst (status_resume ?s1 video (t2, Fulfilled jobData)))) (vid video) =
            Some (if False \<and> version (reconciled t1 video jobData) \<noteq> version video
                  then reconciled t1 video jobData
                  else written video
                         (video\<lparr>status := Ready, thumbnail := Some (thumbnail_url d),
                            duration := Some (job_duration d), videoInfo := Some (video_info d),
                            formats := map to_format (encoded_files d), updatedAt := t2\<rparr>)
                         False (reconciled t1 video jobData))"
      using once r2 by (rule status_resume_stored)
    then show ?thesis
      using r1 assms(2) d by (simp add: reconciled_def written_def)
  qed
  have nodata: "fst (status_resume ?s1 video (t2, Fulfilled jobData)) = s"
    if "job_payload jobData = None"
    using that assms(3) by (simp add: status_resume_def reconcile_def)
  have later: "db (fst (get_status ?s1 (vid video) engine)) = db ?s1"
    if d: "job_payload jobData = Some d"
  proof -
    have "status (reconciled t1 video jobData) = Ready"
      using assms(3) d by (simp add: reconciled_def reconcile_def)
    then have "status (reconciled t1 video jobData) \<noteq> Processing" by simp
    with once show ?thesis by (rule get_status_settled)
  qed
  have job: "db (check_job (\<lambda>j. (t1, Fulfilled jobData)) video s) = db ?s1"
    if "truthy (jobId video)"
    using that by (simp add: check_job_db)
  show ?thesis using once marked unmarked nodata later job by blast
qed

text \<open>
  Two runs at clock readings 10 and 20: on an answer that lists two encoded
  files the second run changes nothing in the collection, on an answer that
  lists none it stores \<open>updatedAt\<close> 20.
\<close>

theorem reconcile_twice_witness:
  "db (fst (status_resume (fst (status_resume one_clip clip (10, Fulfilled completed))) clip
              (20, Fulfilled completed))) =
   db (fst (status_resume one_clip clip (10, Fulfilled completed))) \<and>
   findOne (db (fst (status_resume (fst (status_resume one_clip clip
                                           (10, Fulfilled completed_no_files)))
                       clip (20, Fulfilled completed_no_files)))) ''v1'' =
   Some ((reconciled 10 clip completed_no_files)\<lparr>updatedAt := 20\<rparr>)"
proof -
  have a: "findOne (db one_clip) (vid clip) = Some clip" by code_simp
  have b: "status clip = Processing" by simp
  have c: "job_status completed = ''completed''" by simp
  have c': "job_status completed_no_files = ''completed''" by simp
  have d: "job_payload completed = Some (the (job_payload completed)) \<and>
           \<not> (formats clip = [] \<and> encoded_files (the (job_payload completed)) = [])" by simp
  have d': "job_payload completed_no_files = Some (the (job_payload completed_no_files)) \<and>
            formats clip = [] \<and> encoded_files (the (job_payload completed_no_files)) = []"
    by simp
  have "db (fst (status_resume (fst (status_resume one_clip clip (10, Fulfilled completed))) clip
              (20, Fulfilled completed))) =
        db (fst (status_resume one_clip clip (10, Fulfilled completed)))"
    using reconcile_twice[where s = one_clip and video = clip and jobData = completed
        and ?t1.0 = 10 and ?t2.0 = 20 and d = "the (job_payload completed)", OF a b c] d
    by blast
  moreover have
    "findOne (db (fst (status_resume (fst (status_resume one_clip clip
                                           (10, Fulfilled completed_no_files)))
                       clip (20, Fulfilled completed_no_files)))) (vid clip) =
     Some ((reconciled 10 clip completed_no_files)
             \<lparr>updatedAt := (if (20::nat) = updatedAt clip then 10 else 20)\<rparr>)"
    using reconcile_twice[where s = one_clip and video = clip and jobData = completed_no_files
        and ?t1.0 = 10 and ?t2.0 = 20 and d = "the (job_payload completed_no_files)", OF a b c'] d'
    by blast
  ultimately show ?thesis by simp
qed

text \<open>
  The status route loads the record and sends its query; while the query is
  pending the background job runs, is told \<open>completed\<close> with an empty list of
  encoded files at clock reading 10 and stores \<open>ready\<close>; the status route then
  resumes with the identical payload at clock reading 20, and the stored
  \<open>updatedAt\<close> becomes 20.
\<close>

theorem reconcile_twice_counterexample:
  "map status (db (checkProcessingJobs (\<lambda>j. (10, Fulfilled completed_no_files))
                     (request one_clip (JobStatus ''job-42'')))) = [Ready] \<and>
   map updatedAt (db (checkProcessingJobs (\<lambda>j. (10, Fulfilled completed_no_files))
                     (request one_clip (JobStatus ''job-42'')))) = [10] \<and>
   map updatedAt (db (fst (status_resume
                     (checkProcessingJobs (\<lambda>j. (10, Fulfilled completed_no_files))
                        (request one_clip (JobStatus ''job-42'')))
                     clip (20, Fulfilled completed_no_files)))) = [20]"
  by code_simp

text \<open>
  C10. A record whose status is \<open>processing\<close> and whose \<open>jobId\<close> is unset (or the
  empty string): the status route returns the state as it found it, so it sends
  nothing to the processor and writes nothing, and it answers 200 with the
  stored status \<open>processing\<close>.
\<close>

theorem status_query_without_jobId:
  assumes "findOne (db s) k = Some video"
    and "status video = Processing"
    and "\<not> truthy (jobId video)"
  shows "get_status s k engine = (s, (200, StatusOf k Processing (jobId video) (updatedAt video)))"
  using assms findOne_vid[OF assms(1)] by (simp add: get_status_def status_body_def)

theorem status_query_without_jobId_witness:
  "get_status \<lparr>db = [clip\<lparr>jobId := None\<rparr>], files = {}, logs = [], calls = []\<rparr> ''v1''
     (\<lambda>j. (10, Fulfilled completed)) =
   (\<lparr>db = [clip\<lparr>jobId := None\<rparr>], files = {}, logs = [], calls = []\<rparr>,
    (200, StatusOf ''v1'' Processing None 100))"
proof -
  have a: "findOne (db \<lparr>db = [clip\<lparr>jobId := None\<rparr>], files = {}, logs = [], calls = []\<rparr>) ''v1''
             = Some (clip\<lparr>jobId := None\<rparr>)"
    by code_simp
  have b: "status (clip\<lparr>jobId := None\<rparr>) = Processing" by simp
  have c: "\<not> truthy (jobId (clip\<lparr>jobId := None\<rparr>))" by simp
  show ?thesis
    using status_query_without_jobId[OF a b c, of "\<lambda>j. (10, Fulfilled completed)"] by simp
qed

text \<open>
  C8. The claim: for every record in status \<open>processing\<close> the status route sends
  one status query for \<open>record.jobId\<close>, and when that query fails it logs, writes
  nothing and answers with the stored status. The route sends the query only
  when \<open>jobId\<close> is set and non-empty. What holds: for a record in status
  \<open>processing\<close> with a non-empty \<open>jobId\<close> exactly one query, for that job, is
  sent; and when the query is rejected the only changes to the state are the log
  line and the recorded request, and the answer is 200 with the stored status.
\<close>

theorem status_query_engine_failure:
  assumes "findOne (db s) k = Some video"
    and "status video = Processing"
    and "jobId video = Some j"
    and "j \<noteq> []"
  shows "calls (fst (get_status s k engine)) = calls s @ [JobStatus j] \<and>
         (snd (engine j) = Rejected msg \<longrightarrow>
            get_status s k engine =
              (s\<lparr>logs := logs s @ [''Error checking job status: '' @ msg],
                 calls := calls s @ [JobStatus j]\<rparr>,
               (200, StatusOf k Processing (Some j) (updatedAt video))))"
  using assms findOne_vid[OF assms(1)]
  by (auto simp: get_status_def status_resume_def status_body_def console_def request_def
      dest: save_Fulfilled(5) split: settled.splits option.splits prod.splits)

theorem status_query_engine_failure_witness:
  "calls (fst (get_status one_clip ''v1'' (\<lambda>j. (10, Rejected ''timeout'')))) =
     [JobStatus ''job-42''] \<and>
   get_status one_clip ''v1'' (\<lambda>j. (10, Rejected ''timeout'')) =
     (\<lparr>db = [clip], files = {}, logs = [''Error checking job status: timeout''],
       calls = [JobStatus ''job-42'']\<rparr>,
      (200, StatusOf ''v1'' Processing (Some ''job-42'') 100))"
proof -
  have a: "findOne (db one_clip) ''v1'' = Some clip" by code_simp
  have b: "status clip = Processing" by simp
  have c: "jobId clip = Some ''job-42''" by simp
  have d: "''job-42'' \<noteq> []" by simp
  show ?thesis
    using status_query_engine_failure[OF a b c d, of "\<lambda>j. (10, Rejected ''timeout'')" "''timeout''"]
    by simp
qed

text \<open>A record in status \<open>processing\<close> without \<open>jobId\<close>: no query is sent.\<close>

theorem status_query_every_processing_counterexample:
  "status (clip\<lparr>jobId := None\<rparr>) = Processing \<and>
   calls (fst (get_status \<lparr>db = [clip\<lparr>jobId := None\<rparr>], files = {}, logs = [], calls = []\<rparr>
                 ''v1'' (\<lambda>j. (10, Fulfilled completed)))) = []"
  by code_simp

section \<open>Claims about writes made on an older copy\<close>

text \<open>
  C5. The claim: every write made by reconciliation is an atomic conditional
  write that takes effect only while the stored status is still \<open>processing\<close>,
  so a terminal state written by one path is never overwritten by the other
  path's late application of the same outcome. The routes call \<open>video.save()\<close>
  on the document they loaded before the engine query; the only test of
  \<open>processing\<close> is made on that loaded copy (and by the filter of the background
  job's \<open>find\<close>), and no save is filtered on the stored status. What holds, for
  a handler that resumes on a copy in status \<open>processing\<close>, whatever record is
  stored under its id by then: the save of the error branch, and the save of the
  completed branch when it does not mark \<open>formats\<close>, go through and store the
  new status and the clock reading; the save of the completed branch when it
  marks \<open>formats\<close> is filtered on the version key, so it goes through when the
  stored version is the loaded one (and then stores \<open>ready\<close> whatever the stored
  status was) and is refused, with a line on the console, when the stored
  version has moved. The background job's iteration leaves in the collection
  what the status route's does. When a handler runs with nothing between its
  read and its write, a record whose stored status is \<open>ready\<close> or \<open>error\<close> is
  left as it is by both paths.
\<close>

theorem reconcile_write_conditions:
  "(findOne (db s) (vid video) = Some stored \<and> status video = Processing \<and>
    job_status jobData = ''error'' \<longrightarrow>
      map_option status
        (findOne (db (fst (status_resume s video (t, Fulfilled jobData)))) (vid video)) =
        Some Error \<and>
      map_option updatedAt
        (findOne (db (fst (status_resume s video (t, Fulfilled jobData)))) (vid video)) =
        Some (if t = updatedAt video then updatedAt stored else t)) \<and>
   (findOne (db s) (vid video) = Some stored \<and> status video = Processing \<and>
    job_status jobData = ''completed'' \<and> job_payload jobData = Some d \<and>
    formats video = [] \<and> encoded_files d = [] \<longrightarrow>
      map_option status
        (findOne (db (fst (status_resume s video (t, Fulfilled jobData)))) (vid video)) =
        Some Ready \<and>
      map_option updatedAt
        (findOne (db (fst (status_resume s video (t, Fulfilled jobData)))) (vid video)) =
        Some (if t = updatedAt video then updatedAt stored else t)) \<and>
   (findOne (db s) (vid video) = Some stored \<and> status video = Processing \<and>
    job_status jobData = ''completed'' \<and> job_payload jobData = Some d \<and>
    \<not> (formats video = [] \<and> encoded_files d = []) \<and> version stored = version video \<longrightarrow>
      map_option status
        (findOne (db (fst (status_resume s video (t, Fulfilled jobData)))) (vid video)) =
        Some Ready \<and>
      map_option formats
        (findOne (db (fst (status_resume s video (t, Fulfilled jobData)))) (vid video)) =
        Some (map to_format (encoded_files d)) \<and>
      map_option version
        (findOne (db (fst (status_resume s video (t, Fulfilled jobData)))) (vid video)) =
        Some (version stored + 1)) \<and>
   (findOne (db s) (vid video) = Some stored \<and> status video = Processing \<and>
    job_status jobData = ''completed'' \<and> job_payload jobData = Some d \<and>
    \<not> (formats video = [] \<and> encoded_files d = []) \<and> version stored \<noteq> version video \<longrightarrow>
      fst (status_resume s video (t, Fulfilled jobData)) =
        console s ''Error checking job status: VersionError'') \<and>
   (truthy (jobId video) \<longrightarrow>
      db (check_job engine video s) =
        db (fst (status_resume s video (engine (the (jobId video)))))) \<and>
   (findOne (db s) k = Some stored \<and> terminal (status stored) \<longrightarrow>
      db (fst (get_status s k engine)) = db s) \<and>
   (distinct (map vid (db s)) \<and> findOne (db s) k = Some stored \<and> terminal (status stored) \<longrightarrow>
      findOne (db (checkProcessingJobs engine s)) k = Some stored)"
proof -
  let ?after = "findOne (db (fst (status_resume s video (t, Fulfilled jobData)))) (vid video)"
  have err: "map_option status ?after = Some Error \<and>
             map_option updatedAt ?after =
               Some (if t = updatedAt video then updatedAt stored else t)"
    if a: "findOne (db s) (vid video) = Some stored \<and> status video = Processing \<and>
           job_status jobData = ''error''"
  proof -
    have r: "reconcile t video jobData = Some (video\<lparr>status := Error, updatedAt := t\<rparr>, False)"
      using a by (simp add: reconcile_def)
    have "?after = Some (if False \<and> version stored \<noteq> version video then stored
                         else written video (video\<lparr>status := Error, updatedAt := t\<rparr>) False
                                stored)"
      using a r by (intro status_resume_stored) simp_all
    then show ?thesis using a by (simp add: written_status written_updatedAt)
  qed
  have plain: "map_option status ?after = Some Ready \<and>
               map_option updatedAt ?after =
                 Some (if t = updatedAt video then updatedAt stored else t)"
    if a: "findOne (db s) (vid video) = Some stored \<and> status video = Processing \<and>
           job_status jobData = ''completed'' \<and> job_payload jobData = Some d \<and>
           formats video = [] \<and> encoded_files d = []"
  proof -
    obtain video' where r: "reconcile t video jobData = Some (video', False)"
      and v: "status video' = Ready" "updatedAt video' = t"
      using a by (simp add: reconcile_def)
    have "?after = Some (if False \<and> version stored \<noteq> version video then stored
                         else written video video' False stored)"
      using a r by (intro status_resume_stored) simp_all
    then show ?thesis using a v by (simp add: written_status written_updatedAt)
  qed
  have landed: "map_option status ?after = Some Ready \<and>
                map_option formats ?after = Some (map to_format (encoded_files d)) \<and>
                map_option version ?after = Some (version stored + 1)"
    if a: "findOne (db s) (vid video) = Some stored \<and> status video = Processing \<and>
           job_status jobData = ''completed'' \<and> job_payload jobData = Some d \<and>
           \<not> (formats video = [] \<and> encoded_files d = []) \<and> version stored = version video"
  proof -
    obtain video' where r: "reconcile t video jobData = Some (video', True)"
      and v: "status video' = Ready" "formats video' = map to_format (encoded_files d)"
      using a by (simp add: reconcile_def)
    have "?after = Some (if True \<and> version stored \<noteq> version video then stored
                         else written video video' True stored)"
      using a r by (intro status_resume_stored) simp_all
    then show ?thesis
      using a v by (simp add: written_status written_formats written_version)
  qed
  have refused: "fst (status_resume s video (t, Fulfilled jobData)) =
                   console s ''Error checking job status: VersionError''"
    if a: "findOne (db s) (vid video) = Some stored \<and> status video = Processing \<and>
           job_status jobData = ''completed'' \<and> job_payload jobData = Some d \<and>
           \<not> (formats video = [] \<and> encoded_files d = []) \<and> version stored \<noteq> version video"
  proof -
    obtain video' where r: "reconcile t video jobData = Some (video', True)"
      using a by (simp add: reconcile_def)
    show ?thesis
      using a r status_resume_db_refused[of s video stored t jobData video'] by blast
  qed
  have job: "db (check_job engine video s) =
               db (fst (status_resume s video (engine (the (jobId video)))))"
    if "truthy (jobId video)"
    using that by (rule check_job_db)
  have seq1: "db (fst (get_status s k engine)) = db s"
    if "findOne (db s) k = Some stored \<and> terminal (status stored)"
    using that get_status_settled[of s k stored engine] by (auto simp: terminal_def)
  have seq2: "findOne (db (checkProcessingJobs engine s)) k = Some stored"
    if "distinct (map vid (db s)) \<and> findOne (db s) k = Some stored \<and> terminal (status stored)"
    using that checkProcessingJobs_record[of s k stored engine] by (auto simp: terminal_def)
  show ?thesis using err plain landed refused job seq1 seq2 by blast
qed

text \<open>
  On a record that the other path has stored as \<open>error\<close> at clock reading 10,
  a late error write stores clock reading 20 and a late completed write stores
  \<open>ready\<close>; on a record that the other path has stored as \<open>ready\<close> with its
  formats, a late completed write is refused; and both handlers, run from their
  read, leave the \<open>error\<close> record as it is.
\<close>

theorem reconcile_write_conditions_witness:
  "map_option updatedAt
     (findOne (db (fst (status_resume
                          \<lparr>db = [reconciled 10 clip failed], files = {}, logs = [], calls = []\<rparr>
                          clip (20, Fulfilled failed)))) ''v1'') = Some 20 \<and>
   map_option status
     (findOne (db (fst (status_resume
                          \<lparr>db = [reconciled 10 clip failed], files = {}, logs = [], calls = []\<rparr>
                          clip (20, Fulfilled completed)))) ''v1'') = Some Ready \<and>
   fst (status_resume
          \<lparr>db = [reconciled 10 clip completed], files = {}, logs = [], calls = []\<rparr>
          clip (20, Fulfilled completed)) =
     \<lparr>db = [reconciled 10 clip completed], files = {},
      logs = [''Error checking job status: VersionError''], calls = []\<rparr> \<and>
   db (fst (get_status \<lparr>db = [reconciled 10 clip failed], files = {}, logs = [], calls = []\<rparr>
              ''v1'' (\<lambda>j. (20, Fulfilled failed)))) = [reconciled 10 clip failed] \<and>
   findOne (db (checkProcessingJobs (\<lambda>j. (20, Fulfilled failed))
                  \<lparr>db = [reconciled 10 clip failed], files = {}, logs = [], calls = []\<rparr>))
     ''v1'' = Some (reconciled 10 clip failed)"
proof -
  let ?s = "\<lparr>db = [reconciled 10 clip failed], files = {}, logs = [], calls = []\<rparr>"
  let ?r = "\<lparr>db = [reconciled 10 clip completed], files = {}, logs = [], calls = []\<rparr>"
  let ?d = "the (job_payload completed)"
  have a: "findOne (db ?s) (vid clip) = Some (reconciled 10 clip failed)" by code_simp
  have a': "findOne (db ?r) (vid clip) = Some (reconciled 10 clip completed)" by code_simp
  have b: "status clip = Processing" by simp
  have c: "findOne (db ?s) ''v1'' = Some (reconciled 10 clip failed)" by code_simp
  have d: "terminal (status (reconciled 10 clip failed))" by code_simp
  have e: "job_status failed = ''error''" by simp
  have f: "job_status completed = ''completed'' \<and> job_payload completed = Some ?d \<and>
           \<not> (formats clip = [] \<and> encoded_files ?d = [])" by simp
  have g: "distinct (map vid (db ?s))" by code_simp
  have h: "version (reconciled 10 clip failed) = version clip" by code_simp
  have i: "version (reconciled 10 clip completed) \<noteq> version clip" by code_simp
  have "map_option updatedAt
     (findOne (db (fst (status_resume ?s clip (20, Fulfilled failed)))) (vid clip)) =
        Some (if (20::nat) = updatedAt clip then updatedAt (reconciled 10 clip failed) else 20)"
    using reconcile_write_conditions[where s = ?s and video = clip
        and stored = "reconciled 10 clip failed" and t = 20 and jobData = failed] a b e
    by blast
  moreover have "map_option status
     (findOne (db (fst (status_resume ?s clip (20, Fulfilled completed)))) (vid clip)) =
        Some Ready"
    using reconcile_write_conditions[where s = ?s and video = clip
        and stored = "reconciled 10 clip failed" and t = 20 and jobData = completed
        and d = ?d] a b f h
    by blast
  moreover have "fst (status_resume ?r clip (20, Fulfilled completed)) =
                   console ?r ''Error checking job status: VersionError''"
    using reconcile_write_conditions[where s = ?r and video = clip
        and stored = "reconciled 10 clip completed" and t = 20 and jobData = completed
        and d = ?d] a' b f i
    by blast
  moreover have "db (fst (get_status ?s ''v1'' (\<lambda>j. (20, Fulfilled failed)))) = db ?s"
    using reconcile_write_conditions[where s = ?s and k = "''v1''"
        and stored = "reconciled 10 clip failed" and engine = "\<lambda>j. (20, Fulfilled failed)"] c d
    by blast
  moreover have "findOne (db (checkProcessingJobs (\<lambda>j. (20, Fulfilled failed)) ?s)) ''v1''
                   = Some (reconciled 10 clip failed)"
    using reconcile_write_conditions[where s = ?s and k = "''v1''"
        and stored = "reconciled 10 clip failed" and engine = "\<lambda>j. (20, Fulfilled failed)"]
      c d g
    by blast
  ultimately show ?thesis by (simp add: console_def)
qed

text \<open>
  The status route loads the record and sends its query; while the query is
  pending the background job runs, is told \<open>error\<close> at clock reading 10 and
  stores it; the status route then resumes with the same outcome at clock
  reading 20, and its write replaces what the background job stored.
\<close>

theorem stale_write_counterexample:
  "map status (db (checkProcessingJobs (\<lambda>j. (10, Fulfilled failed))
                     (request one_clip (JobStatus ''job-42'')))) = [Error] \<and>
   map updatedAt (db (checkProcessingJobs (\<lambda>j. (10, Fulfilled failed))
                     (request one_clip (JobStatus ''job-42'')))) = [10] \<and>
   map updatedAt (db (fst (status_resume
                     (checkProcessingJobs (\<lambda>j. (10, Fulfilled failed))
                        (request one_clip (JobStatus ''job-42'')))
                     clip (20, Fulfilled failed)))) = [20]"
  by code_simp

section \<open>Claims about the life cycle\<close>




section \<open>Claims about dispatch\<close>

text \<open>
  C3. The claim: when the submission to the processor fails, the upload route
  stores status \<open>error\<close>, sets \<open>updatedAt\<close> to the current time, leaves \<open>jobId\<close>
  unset and deletes the uploaded file. The route throws while it builds the
  multipart body, before the inner \<open>try\<close> whose \<open>catch\<close> stores \<open>error\<close>. On the
  upload below, with a processor that would let the submission time out, the
  record constructed at clock reading 100 stays stored as \<open>uploading\<close> with
  \<open>updatedAt\<close> 100; no \<open>jobId\<close> is set and the file is deleted, but nothing is
  sent to the processor, the console shows the \<open>TypeError\<close> and the answer is
  500 \<open>Failed to upload video\<close>.
\<close>

theorem upload_never_submitted_rejecting:
  "post_upload fresh upload_clip ''v1'' 100 (105, Rejected ''timeout of 30000ms exceeded'') =
     (\<lparr>db = [\<lparr>vid = ''v1'', title = [67, 108, 105, 112], description = [],
              originalFilename = ''clip.mp4'',
              status = Uploading, jobId = None, thumbnail = None, duration = None,
              formats = [], videoInfo = None, createdAt = 100, updatedAt = 100, version = 0\<rparr>],
       files = {},
       logs = [''Error uploading video: Failed to execute append on FormData: parameter 2 is not of type Blob''],
       calls = []\<rparr>,
      (500, ErrorMsg ''Failed to upload video''))"
  by code_simp

text \<open>
  C4. The claim: when the submission succeeds with job id \<open>j\<close>, the upload route
  stores \<open>jobId = j\<close> and status \<open>processing\<close>, sets \<open>updatedAt\<close> to the current
  time and removes the temporary file. The route throws while it builds the
  multipart body, before \<open>axios.post\<close>. On the upload below, with a processor
  that would answer \<open>job-42\<close>, the record constructed at clock reading 100 stays
  stored as \<open>uploading\<close> without \<open>jobId\<close>; the file is deleted, nothing is sent
  to the processor and the answer is 500 \<open>Failed to upload video\<close>.
\<close>

theorem upload_never_submitted_accepting:
  "post_upload fresh upload_clip ''v1'' 100 (105, Fulfilled (Some ''job-42'')) =
     (\<lparr>db = [\<lparr>vid = ''v1'', title = [67, 108, 105, 112], description = [],
              originalFilename = ''clip.mp4'',
              status = Uploading, jobId = None, thumbnail = None, duration = None,
              formats = [], videoInfo = None, createdAt = 100, updatedAt = 100, version = 0\<rparr>],
       files = {},
       logs = [''Error uploading video: Failed to execute append on FormData: parameter 2 is not of type Blob''],
       calls = []\<rparr>,
      (500, ErrorMsg ''Failed to upload video''))"
  by code_simp

section \<open>Claims about the background job\<close>

text \<open>
  C9. Within one tick, on a collection whose ids are unique: when the query for
  one loaded record \<open>w\<close> is rejected (a failure or a timeout), the error is
  logged, and any loaded record \<open>video\<close> (status \<open>processing\<close>, non-empty \<open>jobId\<close>)
  still has its query sent and ends stored as its own reconcile result: the
  record as loaded when its own query is rejected, the reconciled record
  otherwise. The tick sends one query per loaded record with a \<open>jobId\<close>, in the
  order loaded, whatever the answers are.
\<close>

theorem sweep_survives_failures:
  assumes "distinct (map vid (db s))"
    and "w \<in> set (db s)" and "status w = Processing" and "truthy (jobId w)"
    and "snd (engine (the (jobId w))) = Rejected msg"
    and "video \<in> set (db s)" and "status video = Processing" and "truthy (jobId video)"
  shows "(''Error checking job '' @ the (jobId w) @ '': '' @ msg)
           \<in> set (logs (checkProcessingJobs engine s)) \<and>
         JobStatus (the (jobId video)) \<in> set (calls (checkProcessingJobs engine s)) \<and>
         findOne (db (checkProcessingJobs engine s)) (vid video) =
           Some (case snd (engine (the (jobId video))) of
                   Rejected m \<Rightarrow> video
                 | Fulfilled jobData \<Rightarrow> reconciled (fst (engine (the (jobId video)))) video jobData) \<and>
         calls (checkProcessingJobs engine s) =
           calls s @ map (\<lambda>d. JobStatus (the (jobId d)))
                       (filter (\<lambda>d. truthy (jobId d)) (filter (\<lambda>d. status d = Processing) (db s)))"
proof (intro conjI)
  show "calls (checkProcessingJobs engine s) =
           calls s @ map (\<lambda>d. JobStatus (the (jobId d)))
                       (filter (\<lambda>d. truthy (jobId d)) (filter (\<lambda>d. status d = Processing) (db s)))"
    by (simp only: checkProcessingJobs_def sweep_calls)
  show "(''Error checking job '' @ the (jobId w) @ '': '' @ msg)
          \<in> set (logs (checkProcessingJobs engine s))"
    unfolding checkProcessingJobs_def using assms(2-5) by (intro sweep_rejected) auto
  show "JobStatus (the (jobId video)) \<in> set (calls (checkProcessingJobs engine s))"
    using assms(6-8) by (auto simp: checkProcessingJobs_def sweep_calls)
  have "findOne (db s) (vid video) = Some video"
    using assms(1,6) by (rule findOne_distinct)
  then show "findOne (db (checkProcessingJobs engine s)) (vid video) =
           Some (case snd (engine (the (jobId video))) of
                   Rejected m \<Rightarrow> video
                 | Fulfilled jobData \<Rightarrow> reconciled (fst (engine (the (jobId video)))) video jobData)"
    using checkProcessingJobs_record[OF assms(1), of "vid video" video engine] assms(7,8)
    by (simp add: outcome_def)
qed

theorem sweep_survives_failures_witness:
  "''Error checking job job-41: timeout'' \<in> set (logs (checkProcessingJobs flaky two_clips)) \<and>
   JobStatus ''job-42'' \<in> set (calls (checkProcessingJobs flaky two_clips)) \<and>
   findOne (db (checkProcessingJobs flaky two_clips)) ''v1'' = Some (reconciled 20 clip completed) \<and>
   calls (checkProcessingJobs flaky two_clips) = [JobStatus ''job-41'', JobStatus ''job-42'']"
proof -
  have a: "distinct (map vid (db two_clips))" by code_simp
  have b: "stuck \<in> set (db two_clips)" by simp
  have c: "status stuck = Processing" by simp
  have d: "truthy (jobId stuck)" by simp
  have e: "snd (flaky (the (jobId stuck))) = Rejected ''timeout''" by simp
  have f: "clip \<in> set (db two_clips)" by simp
  have g: "status clip = Processing" by simp
  have h: "truthy (jobId clip)" by simp
  show ?thesis
    using sweep_survives_failures[where s = two_clips and w = stuck and engine = flaky
        and msg = "''timeout''" and video = clip, OF a b c d e f g h]
    by simp
qed

section \<open>Claims about the storage module\<close>

text \<open>
  C6. The claim: \<open>deleteFile\<close> tries every configured provider, its \<open>success\<close> is
  true exactly when some configured provider's delete succeeds, every
  provider's outcome is kept in \<open>results\<close>, and with no provider configured it
  reports a configuration failure. The first three parts hold. With no provider
  configured the function returns \<open>{ success: false, results: [] }\<close>, an object
  without any \<open>error\<close>; only \<open>uploadFile\<close> answers
  \<open>'No storage provider configured'\<close>. What holds: one request per configured
  provider, in the order S3, Cloudinary; \<open>success\<close> true exactly when one of
  their outcomes has \<open>success: true\<close> (for S3: the client's call fulfils; for
  Cloudinary: it fulfils with \<open>'ok'\<close>); all outcomes in \<open>results\<close>; and with none
  configured \<open>success: false\<close> with empty \<open>results\<close> and no request sent.
\<close>

theorem deleteFile_every_provider:
  "deleteFile e s3c clc key b =
     (JObj [(''success'',
             JBool (list_ex (\<lambda>p. succeeded (fst (attempt e s3c clc key b p))) (configured e))),
            (''results'', JList (map (\<lambda>p. fst (attempt e s3c clc key b p)) (configured e)))],
      map (call_of e key b) (configured e)) \<and>
   succeeded (fst (attempt e s3c clc key b S3)) =
     (s3c (case b of None \<Rightarrow> S3_BUCKET e | Some x \<Rightarrow> Some x) key = Fulfilled ()) \<and>
   succeeded (fst (attempt e s3c clc key b Cloudinary)) = (clc key = Fulfilled ''ok'') \<and>
   (configured e = [] \<longrightarrow>
      deleteFile e s3c clc key b =
        (JObj [(''success'', JBool False), (''results'', JList [])], []))"
proof (intro conjI impI)
  assume "configured e = []"
  then show "deleteFile e s3c clc key b =
        (JObj [(''success'', JBool False), (''results'', JList [])], [])"
    by (simp add: deleteFile_attempts)
qed (rule deleteFile_attempts attempt_succeeded)+

theorem deleteFile_every_provider_witness:
  "deleteFile both_providers s3_down cloudinary_up ''videos/v1_720p.mp4'' None =
     (JObj [(''success'', JBool True),
            (''results'',
             JList [JObj [(''success'', JBool False), (''error'', JStr ''AccessDenied'')],
                    JObj [(''success'', JBool True), (''result'', JStr ''ok'')]])],
      [S3DeleteObject (Some ''videos'') ''videos/v1_720p.mp4'',
       CloudinaryDestroy ''videos/v1_720p.mp4'']) \<and>
   deleteFile no_provider s3_down cloudinary_up ''videos/v1_720p.mp4'' None =
     (JObj [(''success'', JBool False), (''results'', JList [])], [])"
proof -
  have a: "configured no_provider = []" by code_simp
  have b: "configured both_providers = [S3, Cloudinary]" by code_simp
  have c: "fst (attempt both_providers s3_down cloudinary_up ''videos/v1_720p.mp4'' None S3) =
             JObj [(''success'', JBool False), (''error'', JStr ''AccessDenied'')]" by code_simp
  have d: "fst (attempt both_providers s3_down cloudinary_up ''videos/v1_720p.mp4'' None
                  Cloudinary) =
             JObj [(''success'', JBool True), (''result'', JStr ''ok'')]" by code_simp
  have e: "\<not> succeeded (JObj [(''success'', JBool False), (''error'', JStr ''AccessDenied'')])"
    by code_simp
  have f: "succeeded (JObj [(''success'', JBool True), (''result'', JStr ''ok'')])"
    by code_simp
  have "deleteFile no_provider s3_down cloudinary_up ''videos/v1_720p.mp4'' None =
     (JObj [(''success'', JBool False), (''results'', JList [])], [])"
    using deleteFile_every_provider[of no_provider s3_down cloudinary_up
        "''videos/v1_720p.mp4''" None] a
    by blast
  moreover have "deleteFile both_providers s3_down cloudinary_up ''videos/v1_720p.mp4'' None =
     (JObj [(''success'', JBool True),
            (''results'',
             JList [JObj [(''success'', JBool False), (''error'', JStr ''AccessDenied'')],
                    JObj [(''success'', JBool True), (''result'', JStr ''ok'')]])],
      [S3DeleteObject (Some ''videos'') ''videos/v1_720p.mp4'',
       CloudinaryDestroy ''videos/v1_720p.mp4''])"
    using deleteFile_every_provider[of both_providers s3_down cloudinary_up
        "''videos/v1_720p.mp4''" None]
    by (simp only: b c d e f list.map list_ex_Nil_iff list_ex_Cons_iff call_of.simps env.simps
        option.case simp_thms)
  ultimately show ?thesis by blast
qed

text \<open>With no provider configured the result of \<open>deleteFile\<close> carries no \<open>error\<close>; that of \<open>uploadFile\<close> does.\<close>

theorem deleteFile_unconfigured_counterexample:
  "js_get (fst (deleteFile no_provider s3_down cloudinary_up ''videos/v1_720p.mp4'' None)) ''error''
     = None \<and>
   js_get (uploadFile no_provider (JObj []) (JObj [])) ''error''
     = Some (JStr ''No storage provider configured'')"
  by code_simp

text \<open>
  C7. The claim: \<open>getContentType\<close> resolves the extension without regard to case,
  covers the eleven listed extensions, gives \<open>video/mp4\<close> for \<open>".MP4"\<close>, and
  gives \<open>application/octet-stream\<close> for an extension that is not in the table,
  such as \<open>".xyz"\<close>. The function takes a file path, and \<open>path.extname\<close> gives a
  file whose name starts with its only dot no extension: \<open>".MP4"\<close> is resolved
  as a file without extension. What holds: for a path \<open>stem.x\<close> (the stem ending
  in a character other than a dot or a slash, \<open>x\<close> free of dots and slashes) the
  type is the table's entry for \<open>.x\<close> in lower case, or
  \<open>application/octet-stream\<close> when there is none; the table has the eleven
  entries; a path whose extension in lower case is not in the table gets
  \<open>application/octet-stream\<close>; \<open>"clip.MP4"\<close> gets \<open>video/mp4\<close>, and \<open>".MP4"\<close> and
  \<open>".xyz"\<close> get \<open>application/octet-stream\<close>.
\<close>

theorem getContentType_by_extension:
  "(stem \<noteq> [] \<and> last stem \<noteq> CHR ''/'' \<and> last stem \<noteq> CHR ''.'' \<and>
    CHR ''/'' \<notin> set x \<and> CHR ''.'' \<notin> set x \<longrightarrow>
      getContentType (stem @ CHR ''.'' # x) =
        (case map_of contentTypes (CHR ''.'' # toLowerCase x) of
           Some t \<Rightarrow> t
         | None \<Rightarrow> ''application/octet-stream'')) \<and>
   map (map_of contentTypes)
     [''.mp4'', ''.avi'', ''.mov'', ''.wmv'', ''.flv'', ''.webm'', ''.mkv'', ''.jpg'', ''.jpeg'',
      ''.png'', ''.gif''] =
   [Some ''video/mp4'', Some ''video/x-msvideo'', Some ''video/quicktime'', Some ''video/x-ms-wmv'',
    Some ''video/x-flv'', Some ''video/webm'', Some ''video/x-matroska'', Some ''image/jpeg'',
    Some ''image/jpeg'', Some ''image/png'', Some ''image/gif''] \<and>
   (map_of contentTypes (toLowerCase (extname p)) = None \<longrightarrow>
      getContentType p = ''application/octet-stream'') \<and>
   getContentType ''clip.MP4'' = ''video/mp4'' \<and>
   getContentType ''.MP4'' = ''application/octet-stream'' \<and>
   getContentType ''.xyz'' = ''application/octet-stream''"
proof (intro conjI impI)
  assume a: "stem \<noteq> [] \<and> last stem \<noteq> CHR ''/'' \<and> last stem \<noteq> CHR ''.'' \<and>
    CHR ''/'' \<notin> set x \<and> CHR ''.'' \<notin> set x"
  then have "extname (stem @ CHR ''.'' # x) = CHR ''.'' # x"
    by (intro extname_simple) simp_all
  then show "getContentType (stem @ CHR ''.'' # x) =
        (case map_of contentTypes (CHR ''.'' # toLowerCase x) of
           Some t \<Rightarrow> t
         | None \<Rightarrow> ''application/octet-stream'')"
    by (simp add: getContentType_def lower_dot)
next
  assume "map_of contentTypes (toLowerCase (extname p)) = None"
  then show "getContentType p = ''application/octet-stream''"
    by (simp add: getContentType_def)
qed (rule table_entries sample_types)+

theorem getContentType_by_extension_witness:
  "getContentType (''movies/clip'' @ CHR ''.'' # ''WebM'') = ''video/webm'' \<and>
   getContentType ''notes.txt'' = ''application/octet-stream''"
proof -
  have a: "''movies/clip'' \<noteq> [] \<and> last ''movies/clip'' \<noteq> CHR ''/'' \<and>
    last ''movies/clip'' \<noteq> CHR ''.'' \<and>
    CHR ''/'' \<notin> set ''WebM'' \<and> CHR ''.'' \<notin> set ''WebM''" by simp
  have b: "map_of contentTypes (CHR ''.'' # toLowerCase ''WebM'') = Some ''video/webm''"
    by code_simp
  have "getContentType (''movies/clip'' @ CHR ''.'' # ''WebM'') = ''video/webm''"
    using getContentType_by_extension[of "''movies/clip''" "''WebM''"] a b by simp
  moreover have "getContentType ''notes.txt'' = ''application/octet-stream''"
    using getContentType_by_extension[where p = "''notes.txt''"] sample_extension by blast
  ultimately show ?thesis by blast
qed

theorem getContentType_dotfile_counterexample:
  "getContentType ''.MP4'' \<noteq> ''video/mp4''"
  by code_simp

end
